theory Spec2Isabelle
  imports Complex_Main "HOL-Library.Log_Nat"
begin

section \<open>JavaScript values and library functions used by the SDK\<close>

text \<open>
  \<^verbatim>\<open>Array.prototype.slice(start, end)\<close> and \<^verbatim>\<open>ArrayBuffer.prototype.slice\<close>: a negative
  index counts from the end, both indices are clamped to the length, and an empty
  result is returned when the clamped end does not exceed the clamped start.
\<close>

definition js_slice :: "'a list \<Rightarrow> int \<Rightarrow> int \<Rightarrow> 'a list" where
  "js_slice xs start fin =
     (let len = int (length xs);
          k = (if start < 0 then max (len + start) 0 else min start len);
          final = (if fin < 0 then max (len + fin) 0 else min fin len)
      in take (nat (final - k)) (drop (nat k) xs))"

text \<open>
  The firmware image. The React \<^verbatim>\<open>flashFirmware\<close> takes an \<^verbatim>\<open>ArrayBuffer\<close> and reads its
  \<^verbatim>\<open>byteLength\<close>. The React Native \<^verbatim>\<open>flashFirmware\<close> takes \<^verbatim>\<open>firmware: any\<close> and reads
  \<^verbatim>\<open>firmware.length\<close>: an array of numbers has that property; an \<^verbatim>\<open>ArrayBuffer\<close>, which
  is what the README of the package passes, has \<^verbatim>\<open>slice\<close> but no \<^verbatim>\<open>length\<close>, so that
  \<^verbatim>\<open>firmware.length\<close> is \<^verbatim>\<open>undefined\<close> (\<open>None\<close>). A comparison \<^verbatim>\<open>i < undefined\<close> is false.
\<close>

datatype firmware = NumberArray "int list" | ArrayBuffer "int list"

fun bytes_of :: "firmware \<Rightarrow> int list" where
  "bytes_of (NumberArray xs) = xs"
| "bytes_of (ArrayBuffer xs) = xs"

fun js_length :: "firmware \<Rightarrow> int option" where
  "js_length (NumberArray xs) = Some (int (length xs))"
| "js_length (ArrayBuffer xs) = None"

definition byteLength :: "'a list \<Rightarrow> int" where
  "byteLength xs = int (length xs)"

fun js_less :: "int \<Rightarrow> int option \<Rightarrow> bool" where
  "js_less i None = False"
| "js_less i (Some n) = (i < n)"

text \<open>
  Numbers are IEEE 754 doubles. Integers of the sizes met here (byte values, lengths,
  indices) are exact, so they are kept as \<^typ>\<open>int\<close> and \<^typ>\<open>nat\<close>. The quotient
  \<^verbatim>\<open>i / chunks.length\<close> and its product with 100 are rounded to the nearest double,
  ties to even: \<open>fl\<close> is that rounding on the rationals, for magnitudes in the normal
  range of the format (no overflow, no subnormals), \<open>ilog2 q\<close> being the binary
  exponent \<open>\<lfloor>log\<^sub>2 q\<rfloor>\<close> of a positive \<open>q\<close> and \<open>rne\<close> rounding to the nearest integer.
\<close>

definition rne :: "rat \<Rightarrow> int" where
  "rne x = (let f = \<lfloor>x\<rfloor>; d = x - of_int f
            in if d < 1 / 2 then f else if 1 / 2 < d then f + 1
               else if even f then f else f + 1)"

definition ilog2 :: "rat \<Rightarrow> int" where
  "ilog2 q = (let (a, b) = quotient_of q; d = bitlen a - bitlen b
              in if 2 powi d \<le> q then d else d - 1)"

definition fl :: "rat \<Rightarrow> rat" where
  "fl q = (if q = 0 then 0
           else let u = 2 powi (ilog2 \<bar>q\<bar> - 52)
                in sgn q * of_int (rne (\<bar>q\<bar> / u)) * u)"

text \<open>\<^verbatim>\<open>Math.round\<close>: the nearest integer, a tie going towards \<open>+\<infinity>\<close>.\<close>

definition Math_round :: "'a::floor_ceiling \<Rightarrow> int" where
  "Math_round x = \<lfloor>x + 1 / 2\<rfloor>"

text \<open>
  What a promise settles with when it is rejected, or what a \<^verbatim>\<open>throw\<close> raises:
  a plain string (\<^verbatim>\<open>Promise.reject(msg)\<close>), the template string
  \<^verbatim>\<open>`${msg}: ${err}`\<close> built around an earlier failure, an \<^verbatim>\<open>Error\<close> object with its
  message, or whatever the Bluetooth library rejected with (\<open>'e\<close>).
\<close>

datatype 'e thrown =
    Rejected string
  | RejectedWith string "'e thrown"
  | Error_thrown string
  | Transport 'e

text \<open>
  An \<^verbatim>\<open>async\<close> function is a state transformer. It returns how its promise settles,
  with a rejection (\<open>Some (Inl e)\<close>) or with a value (\<open>Some (Inr a)\<close>), \<open>None\<close> standing
  for a call that never settles, together with the state that the call has reached.
  \<open>await m k\<close> runs \<open>m\<close> and continues with \<open>k\<close> on its value; when \<open>m\<close> is rejected
  or never settles, so does the whole, in the state that \<open>m\<close> has reached.
\<close>

type_synonym ('x, 's, 'a) task = "'s \<Rightarrow> ('x + 'a) option \<times> 's"

definition resolve :: "'a \<Rightarrow> ('x, 's, 'a) task" where
  "resolve a = (\<lambda>s. (Some (Inr a), s))"

definition reject :: "'x \<Rightarrow> ('x, 's, 'a) task" where
  "reject e = (\<lambda>s. (Some (Inl e), s))"

definition await :: "('x, 's, 'a) task \<Rightarrow> ('a \<Rightarrow> ('x, 's, 'b) task) \<Rightarrow> ('x, 's, 'b) task" where
  "await m k = (\<lambda>s. case m s of
                       (None, s') \<Rightarrow> (None, s')
                     | (Some (Inl e), s') \<Rightarrow> (Some (Inl e), s')
                     | (Some (Inr a), s') \<Rightarrow> k a s')"

section \<open>Constants of the React Native SDK\<close>

definition KIIROO_CONTROL_SERVICE_UUID :: string where
  "KIIROO_CONTROL_SERVICE_UUID = ''1400''"

definition DISCONNECT_DEVICE_UUID :: string where
  "DISCONNECT_DEVICE_UUID = ''1501''"

definition OTA_DATA_UUID :: string where
  "OTA_DATA_UUID = ''1701''"

definition OTA_CONTROL_UUID :: string where
  "OTA_CONTROL_UUID = ''1702''"

definition BATTERY_LEVEL_UUID :: string where
  "BATTERY_LEVEL_UUID = ''2A19''"

definition CHAR_X_UUID :: string where
  "CHAR_X_UUID = ''FFF1''"

definition CHAR_Y_UUID :: string where
  "CHAR_Y_UUID = ''FFF2''"

definition CHAR_Z_UUID :: string where
  "CHAR_Z_UUID = ''FFF3''"

definition IOS_MTU_SIZE :: int where
  "IOS_MTU_SIZE = 185"

definition DESIRED_MTU_SIZE :: int where
  "DESIRED_MTU_SIZE = 252"

definition DESIRED_MTU_SIZE_V_14 :: int where
  "DESIRED_MTU_SIZE_V_14 = 512"

definition deviceNotInitMsg :: string where
  "deviceNotInitMsg = ''The device should be connected first.''"

definition deviceNotFound :: string where
  "deviceNotFound = ''The device is invalid or not found''"

definition DEVICE_MESSAGE :: string where
  "DEVICE_MESSAGE = ''DEVICE_MESSAGE''"

section \<open>DeviceData: the axis sample and its magnitude\<close>

text \<open>
  The three fields hold the byte last notified on each axis
  (\<^verbatim>\<open>Number(data.value[0])\<close>, an integer from 0 to 255).
\<close>

record DeviceData =
  axisX :: int
  axisY :: int
  axisZ :: int

text \<open>
  \<^verbatim>\<open>calculateTotalAcceleration\<close>. The sum of the squares is an exact integer.
  ECMAScript leaves the precision of \<^verbatim>\<open>Math.sqrt\<close> to the implementation, so the
  square root is the parameter \<open>msqrt\<close>; \<open>sqrt_accurate\<close> is the accuracy that the
  results below ask of it (a relative error of at most \<open>2\<^sup>-\<^sup>5\<^sup>2\<close>, which a correctly
  rounded double square root meets).
\<close>

definition calculateTotalAcceleration :: "(real \<Rightarrow> real) \<Rightarrow> DeviceData \<Rightarrow> int" where
  "calculateTotalAcceleration msqrt d =
     (let result = msqrt (of_int ((axisX d)\<^sup>2 + (axisY d)\<^sup>2 + (axisZ d)\<^sup>2))
      in min (Math_round result) 5)"

definition sqrt_accurate :: "(real \<Rightarrow> real) \<Rightarrow> bool" where
  "sqrt_accurate msqrt = (\<forall>s. 0 \<le> s \<longrightarrow> \<bar>msqrt s - sqrt s\<bar> \<le> sqrt s / 2 ^ 52)"

text \<open>\<^verbatim>\<open>set_fffx\<close>: the \<^verbatim>\<open>switch\<close> on the characteristic UUID, with its \<^verbatim>\<open>default\<close> throwing.\<close>

definition set_fffx :: "string \<Rightarrow> int \<Rightarrow> DeviceData \<Rightarrow> 'e thrown + DeviceData" where
  "set_fffx propName v d =
     (if propName = CHAR_X_UUID then Inr (d\<lparr>axisX := v\<rparr>)
      else if propName = CHAR_Y_UUID then Inr (d\<lparr>axisY := v\<rparr>)
      else if propName = CHAR_Z_UUID then Inr (d\<lparr>axisZ := v\<rparr>)
      else Inl (Error_thrown (''Property '' @ propName @ '' does not exist on DeviceData.'')))"

section \<open>DeviceSensorEvents: the per-device event bus\<close>

record Device =
  dev_id :: string
  dev_name :: string

text \<open>
  The \<^verbatim>\<open>EventEmitter\<close> keeps, for each event name, its listeners in the order they were
  added. \<open>emit\<close> returns the listener invocations it makes, in order.
\<close>

record 'l DeviceSensorEvents =
  ee :: "string \<Rightarrow> 'l list"

definition getMessageFromDeviceId :: "string \<Rightarrow> string" where
  "getMessageFromDeviceId deviceId = DEVICE_MESSAGE @ deviceId"

definition emit :: "'l DeviceSensorEvents \<Rightarrow> Device option \<Rightarrow> int \<Rightarrow> ('l \<times> Device \<times> int) list" where
  "emit bus device percent =
     (case device of
        None \<Rightarrow> []
      | Some d \<Rightarrow> map (\<lambda>l. (l, d, percent)) (ee bus (getMessageFromDeviceId (dev_id d))))"

definition subscribe :: "string \<Rightarrow> 'l \<Rightarrow> 'l DeviceSensorEvents \<Rightarrow> 'l DeviceSensorEvents" where
  "subscribe deviceId listener bus =
     bus\<lparr>ee := (ee bus)(getMessageFromDeviceId deviceId :=
                  ee bus (getMessageFromDeviceId deviceId) @ [listener])\<rparr>"

text \<open>\<^verbatim>\<open>removeListener\<close> removes the most recently added instance of the listener.\<close>

definition unsubscribe :: "string \<Rightarrow> 'l \<Rightarrow> 'l DeviceSensorEvents \<Rightarrow> 'l DeviceSensorEvents" where
  "unsubscribe deviceId listener bus =
     bus\<lparr>ee := (ee bus)(getMessageFromDeviceId deviceId :=
                  rev (remove1 listener (rev (ee bus (getMessageFromDeviceId deviceId)))))\<rparr>"

section \<open>The Bluetooth library and the state of the React Native SDK\<close>

text \<open>
  The calls the SDK makes to \<^verbatim>\<open>react-native-ble-manager\<close>, the progress values handed to
  the caller's \<^verbatim>\<open>onProgress\<close> and the listener invocations of the event bus are
  recorded, in the order they happen, in one trace. The service and the characteristic
  of a \<^verbatim>\<open>stopNotification\<close> call are \<open>None\<close> when the SDK passes \<^verbatim>\<open>undefined\<close>.
\<close>

datatype ble_call =
    Connect string
  | Disconnect string
  | RetrieveServices string
  | IsPeripheralConnected string
  | StartNotification string string string
  | StopNotification string "string option" "string option"
  | Read string string string
  | Write string string string "int list" "int option"
  | WriteWithoutResponse string string string "int list" "int option"
  | RequestMTU string int

datatype 'l event =
    Called ble_call
  | Progress int
  | Delivered 'l Device int

text \<open>
  The library is outside the repository: each of its answers is a function of the call
  and of everything that happened before it. \<open>perform\<close> answers the calls whose
  promise carries no value (\<open>None\<close>: resolved, \<open>Some e\<close>: rejected with \<open>e\<close>).
\<close>

record ('e, 'l) BleManager =
  isPeripheralConnected :: "'l event list \<Rightarrow> string \<Rightarrow> 'e + bool"
  read :: "'l event list \<Rightarrow> string \<Rightarrow> string \<Rightarrow> string \<Rightarrow> 'e + int list"
  requestMTU :: "'l event list \<Rightarrow> string \<Rightarrow> int \<Rightarrow> 'e + int"
  perform :: "'l event list \<Rightarrow> ble_call \<Rightarrow> 'e option"

text \<open>
  \<^verbatim>\<open>Platform.OS\<close>, and \<^verbatim>\<open>Platform.Version\<close> as the number \<^verbatim>\<open>versionNumber\<close> that
  \<^verbatim>\<open>flashFirmware\<close> makes of it (\<^verbatim>\<open>parseFloat\<close> of a string version; \<open>None\<close> is
  \<^verbatim>\<open>NaN\<close>, for which every comparison is false).
\<close>

record Platform =
  OS :: string
  versionNumber :: "rat option"

definition version_at_least_34 :: "Platform \<Rightarrow> bool" where
  "version_at_least_34 pf = (case versionNumber pf of None \<Rightarrow> False | Some v \<Rightarrow> 34 \<le> v)"

text \<open>
  The closure that \<^verbatim>\<open>connect\<close> registers for notifications captures the facade and the
  device it was called with; it is the only callback the SDK ever registers.
\<close>

datatype closure = OnAxisNotification Device

record CallbackInfo =
  callback :: "closure option"
  service :: string
  characteristic :: string

text \<open>
  The table \<^verbatim>\<open>callbacks\<close> of \<^verbatim>\<open>BleManagerSensor\<close> is a plain object, created as \<^verbatim>\<open>{}\<close> and
  indexed by device id. It has its own properties (\<open>own\<close>), one value for each key, and
  a prototype: \<^verbatim>\<open>Object.prototype\<close> at first (\<open>proto = None\<close>), whose properties are
  found under their names by every lookup. The key \<^verbatim>\<open>__proto__\<close> is the accessor of the
  prototype: a lookup of it returns the prototype, and an assignment to it creates no
  property but makes the assigned object the prototype of the table
  (\<open>proto = Some info\<close>), whose three properties are then found as well. \<^verbatim>\<open>delete\<close>
  removes an own property and nothing else.

  The SDK tests what a lookup returns for truthiness and reads its properties
  \<^verbatim>\<open>callback\<close>, \<^verbatim>\<open>service\<close> and \<^verbatim>\<open>characteristic\<close>. So a lookup returns an entry of the
  table (\<open>Entry\<close>); or a truthy value that has none of these properties, which is a
  method of \<^verbatim>\<open>Object.prototype\<close>, that object itself, the callback or a non-empty string
  of the entry made prototype (\<open>Inherited\<close>); or a falsy value, which is \<^verbatim>\<open>undefined\<close> or
  an empty string (\<open>Undefined\<close>).
\<close>

record callback_table =
  own :: "string \<rightharpoonup> CallbackInfo"
  proto :: "CallbackInfo option"

datatype table_value = Undefined | Entry CallbackInfo | Inherited

definition Object_prototype_keys :: "string list" where
  "Object_prototype_keys =
     [''constructor'', ''hasOwnProperty'', ''isPrototypeOf'', ''propertyIsEnumerable'',
      ''toLocaleString'', ''toString'', ''valueOf'', ''__proto__'',
      ''__defineGetter__'', ''__defineSetter__'', ''__lookupGetter__'', ''__lookupSetter__'']"

definition table_get :: "callback_table \<Rightarrow> string \<Rightarrow> table_value" where
  "table_get t k =
     (if k = ''__proto__''
      then (case proto t of Some info \<Rightarrow> Entry info | None \<Rightarrow> Inherited)
      else
        (case own t k of
           Some info \<Rightarrow> Entry info
         | None \<Rightarrow>
             (case proto t of
                Some info \<Rightarrow>
                  if k = ''callback'' then (if callback info = None then Undefined else Inherited)
                  else if k = ''service'' then (if service info = [] then Undefined else Inherited)
                  else if k = ''characteristic''
                       then (if characteristic info = [] then Undefined else Inherited)
                  else if k \<in> set Object_prototype_keys then Inherited else Undefined
              | None \<Rightarrow> if k \<in> set Object_prototype_keys then Inherited else Undefined)))"

definition table_set :: "callback_table \<Rightarrow> string \<Rightarrow> CallbackInfo \<Rightarrow> callback_table" where
  "table_set t k info =
     (if k = ''__proto__'' then t\<lparr>proto := Some info\<rparr> else t\<lparr>own := (own t)(k \<mapsto> info)\<rparr>)"

definition table_delete :: "callback_table \<Rightarrow> string \<Rightarrow> callback_table" where
  "table_delete t k = t\<lparr>own := (own t)(k := None)\<rparr>"

text \<open>
  One record holds the fields of the \<^verbatim>\<open>KiirooControl\<close> instance (\<open>device\<close>,
  \<open>notificationData\<close>, \<open>acceleration\<close>, \<open>sensor\<close>), the module-level table
  \<^verbatim>\<open>callbacks\<close> of \<^verbatim>\<open>BleManagerSensor\<close> and the trace.
\<close>

record 'l world =
  device :: "Device option"
  notificationData :: DeviceData
  acceleration :: int
  sensor :: "'l DeviceSensorEvents"
  callbacks :: callback_table
  trace :: "'l event list"

text \<open>\<^verbatim>\<open>new KiirooControl()\<close> in a freshly loaded module.\<close>

definition new_KiirooControl :: "'l world" where
  "new_KiirooControl =
     \<lparr>device = None,
      notificationData = \<lparr>axisX = 0, axisY = 0, axisZ = 0\<rparr>,
      acceleration = 0,
      sensor = \<lparr>ee = (\<lambda>_. [])\<rparr>,
      callbacks = \<lparr>own = Map.empty, proto = None\<rparr>,
      trace = []\<rparr>"

definition record_event :: "'l event \<Rightarrow> 'l world \<Rightarrow> 'l world" where
  "record_event ev s = s\<lparr>trace := trace s @ [ev]\<rparr>"

definition ble_perform :: "('e, 'l) BleManager \<Rightarrow> ble_call \<Rightarrow> ('e thrown, 'l world, unit) task" where
  "ble_perform ble c = (\<lambda>s.
     case perform ble (trace s) c of
       None \<Rightarrow> (Some (Inr ()), record_event (Called c) s)
     | Some e \<Rightarrow> (Some (Inl (Transport e)), record_event (Called c) s))"

definition ble_isPeripheralConnected ::
  "('e, 'l) BleManager \<Rightarrow> string \<Rightarrow> ('e thrown, 'l world, bool) task" where
  "ble_isPeripheralConnected ble deviceId = (\<lambda>s.
     case isPeripheralConnected ble (trace s) deviceId of
       Inr b \<Rightarrow> (Some (Inr b), record_event (Called (IsPeripheralConnected deviceId)) s)
     | Inl e \<Rightarrow> (Some (Inl (Transport e)), record_event (Called (IsPeripheralConnected deviceId)) s))"

definition ble_read ::
  "('e, 'l) BleManager \<Rightarrow> string \<Rightarrow> string \<Rightarrow> string \<Rightarrow> ('e thrown, 'l world, int list) task" where
  "ble_read ble deviceId srv chr = (\<lambda>s.
     case read ble (trace s) deviceId srv chr of
       Inr bytes \<Rightarrow> (Some (Inr bytes), record_event (Called (Read deviceId srv chr)) s)
     | Inl e \<Rightarrow> (Some (Inl (Transport e)), record_event (Called (Read deviceId srv chr)) s))"

definition ble_requestMTU ::
  "('e, 'l) BleManager \<Rightarrow> string \<Rightarrow> int \<Rightarrow> ('e thrown, 'l world, int) task" where
  "ble_requestMTU ble deviceId mtu = (\<lambda>s.
     case requestMTU ble (trace s) deviceId mtu of
       Inr m \<Rightarrow> (Some (Inr m), record_event (Called (RequestMTU deviceId mtu)) s)
     | Inl e \<Rightarrow> (Some (Inl (Transport e)), record_event (Called (RequestMTU deviceId mtu)) s))"

text \<open>A call whose promise nobody awaits: it is made, and its outcome is dropped.\<close>

definition ble_fire :: "ble_call \<Rightarrow> ('e thrown, 'l world, unit) task" where
  "ble_fire c = (\<lambda>s. (Some (Inr ()), record_event (Called c) s))"

section \<open>BleManagerSensor: the table of notification callbacks\<close>

text \<open>
  \<^verbatim>\<open>subscribe\<close> awaits \<^verbatim>\<open>startNotification\<close> and then assigns the entry. \<^verbatim>\<open>unsubscribe\<close>
  returns when the lookup is falsy; otherwise it reads \<^verbatim>\<open>service\<close> and
  \<^verbatim>\<open>characteristic\<close> of what the lookup returned, awaits \<^verbatim>\<open>stopNotification\<close> and
  deletes the key.
\<close>

definition BleManagerSensor_subscribe ::
  "('e, 'l) BleManager \<Rightarrow> string \<Rightarrow> string \<Rightarrow> string \<Rightarrow> closure option
     \<Rightarrow> ('e thrown, 'l world, unit) task" where
  "BleManagerSensor_subscribe ble deviceId srv chr cb =
     await (ble_perform ble (StartNotification deviceId srv chr)) (\<lambda>_ s.
       (Some (Inr ()), s\<lparr>callbacks := table_set (callbacks s) deviceId
               \<lparr>callback = cb, service = srv, characteristic = chr\<rparr>\<rparr>))"

definition BleManagerSensor_unsubscribe ::
  "('e, 'l) BleManager \<Rightarrow> string \<Rightarrow> ('e thrown, 'l world, unit) task" where
  "BleManagerSensor_unsubscribe ble deviceId = (\<lambda>s.
     case table_get (callbacks s) deviceId of
       Undefined \<Rightarrow> (Some (Inr ()), s)
     | Entry info \<Rightarrow>
         await (ble_perform ble
                  (StopNotification deviceId (Some (service info)) (Some (characteristic info))))
           (\<lambda>_ s'. (Some (Inr ()), s'\<lparr>callbacks := table_delete (callbacks s') deviceId\<rparr>)) s
     | Inherited \<Rightarrow>
         await (ble_perform ble (StopNotification deviceId None None))
           (\<lambda>_ s'. (Some (Inr ()), s'\<lparr>callbacks := table_delete (callbacks s') deviceId\<rparr>)) s)"

section \<open>KiirooControl (React Native)\<close>

definition isConnected :: "('e, 'l) BleManager \<Rightarrow> ('e thrown, 'l world, bool) task" where
  "isConnected ble = (\<lambda>s.
     case device s of
       Some d \<Rightarrow> ble_isPeripheralConnected ble (dev_id d) s
     | None \<Rightarrow> (Some (Inr False), s))"

definition writeChar ::
  "('e, 'l) BleManager \<Rightarrow> string \<Rightarrow> int list \<Rightarrow> int option \<Rightarrow> ('e thrown, 'l world, unit) task" where
  "writeChar ble serviceChar bytes maxByteSize = (\<lambda>s.
     case device s of
       None \<Rightarrow> (Some (Inl (Rejected deviceNotInitMsg)), s)
     | Some d \<Rightarrow>
         await (isConnected ble) (\<lambda>c.
           if \<not> c then reject (Rejected deviceNotInitMsg)
           else ble_perform ble
                  (Write (dev_id d) KIIROO_CONTROL_SERVICE_UUID serviceChar bytes maxByteSize)) s)"

definition readChar ::
  "('e, 'l) BleManager \<Rightarrow> string \<Rightarrow> ('e thrown, 'l world, int list) task" where
  "readChar ble serviceChar = (\<lambda>s.
     case device s of
       None \<Rightarrow> (Some (Inl (Rejected deviceNotInitMsg)), s)
     | Some d \<Rightarrow>
         await (isConnected ble) (\<lambda>c.
           if \<not> c then reject (Rejected deviceNotInitMsg)
           else ble_read ble (dev_id d) KIIROO_CONTROL_SERVICE_UUID serviceChar) s)"

text \<open>
  \<^verbatim>\<open>disconnect\<close>. The three \<^verbatim>\<open>stopNotification\<close> calls of the \<^verbatim>\<open>forEach\<close> are made and
  not awaited.
\<close>

definition disconnect :: "('e, 'l) BleManager \<Rightarrow> Platform \<Rightarrow> ('e thrown, 'l world, unit) task" where
  "disconnect ble pf = (\<lambda>s.
     case device s of
       None \<Rightarrow> (Some (Inl (Rejected deviceNotInitMsg)), s)
     | Some d \<Rightarrow>
         await (isConnected ble) (\<lambda>c.
           if \<not> c then reject (Rejected deviceNotInitMsg)
           else
             await (ble_fire (StopNotification (dev_id d)
                      (Some KIIROO_CONTROL_SERVICE_UUID) (Some CHAR_X_UUID))) (\<lambda>_.
             await (ble_fire (StopNotification (dev_id d)
                      (Some KIIROO_CONTROL_SERVICE_UUID) (Some CHAR_Y_UUID))) (\<lambda>_.
             await (ble_fire (StopNotification (dev_id d)
                      (Some KIIROO_CONTROL_SERVICE_UUID) (Some CHAR_Z_UUID))) (\<lambda>_.
             await (BleManagerSensor_unsubscribe ble (dev_id d)) (\<lambda>_.
             await (if OS pf = ''android'' then writeChar ble DISCONNECT_DEVICE_UUID [0] None
                    else resolve ()) (\<lambda>_.
             ble_perform ble (Disconnect (dev_id d)))))))) s)"

text \<open>
  \<^verbatim>\<open>connect\<close>. The body of the \<^verbatim>\<open>try\<close> is \<open>connect_steps\<close>. In the \<^verbatim>\<open>catch\<close>, the
  source calls \<^verbatim>\<open>this.disconnect()\<close> without awaiting it; here it runs to its end before
  \<^verbatim>\<open>connect\<close> rejects, and its outcome is dropped.
\<close>

definition connect_steps :: "('e, 'l) BleManager \<Rightarrow> Device \<Rightarrow> ('e thrown, 'l world, unit) task" where
  "connect_steps ble d =
     await (ble_perform ble (Connect (dev_id d))) (\<lambda>_.
     await (ble_perform ble (RetrieveServices (dev_id d))) (\<lambda>_.
     await (BleManagerSensor_subscribe ble (dev_id d) KIIROO_CONTROL_SERVICE_UUID CHAR_X_UUID None) (\<lambda>_.
     await (BleManagerSensor_subscribe ble (dev_id d) KIIROO_CONTROL_SERVICE_UUID CHAR_Y_UUID None) (\<lambda>_.
     BleManagerSensor_subscribe ble (dev_id d) KIIROO_CONTROL_SERVICE_UUID CHAR_Z_UUID
       (Some (OnAxisNotification d))))))"

definition connect ::
  "('e, 'l) BleManager \<Rightarrow> Platform \<Rightarrow> Device option \<Rightarrow> ('e thrown, 'l world, unit) task" where
  "connect ble pf dev = (\<lambda>s.
     case dev of
       None \<Rightarrow> (Some (Inl (Rejected deviceNotFound)), s)
     | Some d \<Rightarrow>
         (case connect_steps ble d
                 (s\<lparr>device := Some d, notificationData := \<lparr>axisX = 0, axisY = 0, axisZ = 0\<rparr>\<rparr>) of
            (None, s') \<Rightarrow> (None, s')
          | (Some (Inr u), s') \<Rightarrow> (Some (Inr ()), s')
          | (Some (Inl err), s') \<Rightarrow>
              (case disconnect ble pf s' of
                 (r, s'') \<Rightarrow> (Some (Inl (RejectedWith deviceNotFound err)), s''))))"

text \<open>\<^verbatim>\<open>getBattery\<close>: \<^verbatim>\<open>readData[0]\<close> is \<^verbatim>\<open>undefined\<close> (\<open>None\<close>) for an empty read.\<close>

definition getBattery :: "('e, 'l) BleManager \<Rightarrow> ('e thrown, 'l world, int option) task" where
  "getBattery ble =
     await (readChar ble BATTERY_LEVEL_UUID) (\<lambda>readData.
       resolve (case readData of [] \<Rightarrow> None | b # bs \<Rightarrow> Some b))"

section \<open>flashFirmware (React Native)\<close>

text \<open>
  The chunking loop
  \<^verbatim>\<open>for (let i = 0; i < firmware.length; i += packetSize) chunks.push(firmware.slice(i, i + packetSize))\<close>
  of the React Native SDK, and the same loop with \<^verbatim>\<open>firmware.byteLength\<close> of the React
  SDK: \<open>firmware\<close> is the content of the image and \<open>len\<close> what the bound of the loop
  evaluates to. With a packet size that is not positive and a bound above 0 the loop
  never ends (an engine runs it until its memory is exhausted), which is the value
  \<open>None\<close>.
\<close>

partial_function (option) chunk_loop ::
  "'a list \<Rightarrow> int option \<Rightarrow> int \<Rightarrow> int \<Rightarrow> 'a list list \<Rightarrow> 'a list list option" where
  "chunk_loop firmware len packetSize i chunks =
     (if js_less i len
      then chunk_loop firmware len packetSize (i + packetSize)
             (chunks @ [js_slice firmware i (i + packetSize)])
      else Some chunks)"

text \<open>
  The chunks that the React Native SDK and the React SDK make of an image, if the loop
  ends; and the chunking as a step of an \<^verbatim>\<open>async\<close> function: when the loop does not end,
  the call never settles.
\<close>

definition chunks_of_firmware :: "firmware \<Rightarrow> int \<Rightarrow> int list list option" where
  "chunks_of_firmware firmware packetSize =
     chunk_loop (bytes_of firmware) (js_length firmware) packetSize 0 []"

definition chunks_of_buffer :: "int list \<Rightarrow> int \<Rightarrow> int list list option" where
  "chunks_of_buffer firmware packetSize =
     chunk_loop firmware (Some (byteLength firmware)) packetSize 0 []"

definition make_chunks :: "'c option \<Rightarrow> ('x, 's, 'c) task" where
  "make_chunks loop = (\<lambda>s.
     case loop of
       None \<Rightarrow> (None, s)
     | Some chunks \<Rightarrow> (Some (Inr chunks), s))"

text \<open>\<^verbatim>\<open>Math.round((i / chunks.length) * 100)\<close>, in double precision.\<close>

definition progress_percent :: "nat \<Rightarrow> nat \<Rightarrow> int" where
  "progress_percent i n = Math_round (fl (fl (of_nat i / of_nat n) * 100))"

text \<open>\<^verbatim>\<open>onProgress?.(v)\<close>: \<open>onProgress\<close> tells whether the caller supplied a callback.\<close>

definition report :: "bool \<Rightarrow> int \<Rightarrow> ('x, 'l world, unit) task" where
  "report onProgress v = (\<lambda>s.
     if onProgress then (Some (Inr ()), record_event (Progress v) s) else (Some (Inr ()), s))"

text \<open>
  The streaming loop \<^verbatim>\<open>for (let i = 0; i < chunks.length; i++)\<close>: \<open>n\<close> is
  \<^verbatim>\<open>chunks.length\<close>, \<open>i\<close> the index of the first chunk still to send.
\<close>

fun send_chunks ::
  "('e, 'l) BleManager \<Rightarrow> bool \<Rightarrow> nat \<Rightarrow> nat \<Rightarrow> int list list \<Rightarrow> ('e thrown, 'l world, unit) task" where
  "send_chunks ble onProgress n i [] = resolve ()"
| "send_chunks ble onProgress n i (chunk # rest) =
     await (writeChar ble OTA_DATA_UUID chunk (Some (int (length chunk)))) (\<lambda>_.
     await (report onProgress (progress_percent i n)) (\<lambda>_.
     send_chunks ble onProgress n (Suc i) rest))"

text \<open>
  \<^verbatim>\<open>flashFirmware\<close>. The timed waits between the steps change nothing in the state and
  are left out.
\<close>

definition flashFirmware ::
  "('e, 'l) BleManager \<Rightarrow> Platform \<Rightarrow> firmware \<Rightarrow> bool \<Rightarrow> ('e thrown, 'l world, unit) task" where
  "flashFirmware ble pf firmware onProgress = (\<lambda>s.
     case device s of
       None \<Rightarrow> (Some (Inl (Rejected deviceNotInitMsg)), s)
     | Some d \<Rightarrow>
         await (isConnected ble) (\<lambda>c.
           if \<not> c then reject (Rejected deviceNotInitMsg)
           else
             await (if OS pf = ''ios'' then resolve IOS_MTU_SIZE
                    else ble_requestMTU ble (dev_id d)
                           (if version_at_least_34 pf then DESIRED_MTU_SIZE_V_14
                            else DESIRED_MTU_SIZE)) (\<lambda>mtuSize.
             let packetSize = mtuSize - 3 in
             await (make_chunks (chunks_of_firmware firmware packetSize)) (\<lambda>chunks.
             await (writeChar ble OTA_DATA_UUID
                      [packetSize, if version_at_least_34 pf then 1 else 0] None) (\<lambda>_.
             await (writeChar ble OTA_CONTROL_UUID [1] None) (\<lambda>_.
             await (readChar ble OTA_CONTROL_UUID) (\<lambda>data.
             await (send_chunks ble onProgress (length chunks) 0 chunks) (\<lambda>_.
             await (if OS pf = ''ios'' then writeChar ble OTA_CONTROL_UUID [4] (Some 1)
                    else ble_perform ble
                           (WriteWithoutResponse (dev_id d) KIIROO_CONTROL_SERVICE_UUID
                              OTA_CONTROL_UUID [4] (Some 1))) (\<lambda>_.
             await (isConnected ble) (\<lambda>c'.
               if \<not> c' then (\<lambda>s'. connect ble pf (device s') s')
               else resolve ()))))))))) s)"

section \<open>Axis notifications (React Native)\<close>

text \<open>
  The argument of the \<^verbatim>\<open>BleManagerDidUpdateValueForCharacteristic\<close> event: the
  peripheral's id, the characteristic UUID (\<^verbatim>\<open>data.characteristic\<close>, falsy when
  empty) and the first byte of the value (\<^verbatim>\<open>data.value[0]\<close>).
\<close>

record notification =
  peripheral :: string
  data_characteristic :: string
  data_value_0 :: int

text \<open>The callback that \<^verbatim>\<open>connect\<close> passes with the Z-axis subscription.\<close>

definition onAxisNotification ::
  "(real \<Rightarrow> real) \<Rightarrow> Device \<Rightarrow> notification \<Rightarrow> ('e thrown, 'l world, unit) task" where
  "onAxisNotification msqrt dev data = (\<lambda>s.
     case (if data_characteristic data \<noteq> []
           then set_fffx (data_characteristic data) (data_value_0 data) (notificationData s)
           else Inr (notificationData s)) of
       Inl err \<Rightarrow> (Some (Inl err), s)
     | Inr nd \<Rightarrow>
         (let s1 = s\<lparr>notificationData := nd\<rparr>;
              percent = calculateTotalAcceleration msqrt nd
          in if acceleration s1 \<noteq> percent
             then (Some (Inr ()),
                    s1\<lparr>acceleration := percent,
                       trace := trace s1 @
                         map (\<lambda>(l, d, p). Delivered l d p)
                           (emit (sensor s1) (Some dev) (min (percent * 20) 100))\<rparr>)
             else (Some (Inr ()), s1)))"

text \<open>The listener that \<^verbatim>\<open>BleManagerSensor\<close> installs on the native event.\<close>

definition didUpdateValueForCharacteristic ::
  "(real \<Rightarrow> real) \<Rightarrow> notification \<Rightarrow> ('e thrown, 'l world, unit) task" where
  "didUpdateValueForCharacteristic msqrt args = (\<lambda>s.
     case table_get (callbacks s) (peripheral args) of
       Undefined \<Rightarrow> (Some (Inr ()), s)
     | Inherited \<Rightarrow> (Some (Inr ()), s)
     | Entry info \<Rightarrow>
         (case callback info of
            None \<Rightarrow> (Some (Inr ()), s)
          | Some (OnAxisNotification dev) \<Rightarrow> onAxisNotification msqrt dev args s))"

text \<open>
  A sequence of notifications, each delivered as an event of its own: what one
  listener call throws does not reach the next.
\<close>

fun notify_all :: "(real \<Rightarrow> real) \<Rightarrow> notification list \<Rightarrow> 'l world \<Rightarrow> 'l world" where
  "notify_all msqrt [] s = s"
| "notify_all msqrt (args # rest) s =
     notify_all msqrt rest
       (snd ((didUpdateValueForCharacteristic msqrt args
                :: (unit thrown, 'l world, unit) task) s))"

text \<open>The percent values that the trace shows delivered to listener \<open>l\<close>.\<close>

fun delivered_to :: "'l \<Rightarrow> 'l event list \<Rightarrow> int list" where
  "delivered_to l [] = []"
| "delivered_to l (Delivered l' d p # t) = (if l' = l then p # delivered_to l t else delivered_to l t)"
| "delivered_to l (ev # t) = delivered_to l t"

text \<open>The progress values in a trace.\<close>

fun reported :: "'l event list \<Rightarrow> int list" where
  "reported [] = []"
| "reported (Progress v # t) = v # reported t"
| "reported (ev # t) = reported t"

section \<open>KiirooControl (React, over Web Bluetooth)\<close>

text \<open>
  The characteristics of the control service are named by their 16-bit UUIDs. The
  Web Bluetooth calls that \<^verbatim>\<open>getBattery\<close> and \<^verbatim>\<open>flashFirmware\<close> make, and the progress
  values, are recorded in a trace as above.
\<close>

definition WEB_OTA_DATA_UUID :: int where
  "WEB_OTA_DATA_UUID = 0x1701"

definition WEB_OTA_CONTROL_UUID :: int where
  "WEB_OTA_CONTROL_UUID = 0x1702"

definition WEB_BATTERY_LEVEL_UUID :: int where
  "WEB_BATTERY_LEVEL_UUID = 0x2a19"

definition DEFAULT_MTU_SIZE :: int where
  "DEFAULT_MTU_SIZE = 256"

datatype web_event =
    GetCharacteristic int
  | WriteValue int "int list"
  | ReadValue int
  | WebProgress int

record 'e WebBluetooth =
  getCharacteristic :: "web_event list \<Rightarrow> int \<Rightarrow> 'e option"
  writeValue :: "web_event list \<Rightarrow> int \<Rightarrow> int list \<Rightarrow> 'e option"
  readValue :: "web_event list \<Rightarrow> int \<Rightarrow> 'e + int list"

text \<open>
  Of the instance, the fields that the two methods read: \<^verbatim>\<open>device\<close> with its
  \<^verbatim>\<open>gatt\<close> server, and \<^verbatim>\<open>controlService\<close>, which is \<^verbatim>\<open>null\<close> (\<open>None\<close>) until
  \<^verbatim>\<open>connect\<close> stores the service and is never cleared afterwards.
\<close>

record BluetoothRemoteGATTServer =
  connected :: bool

record BluetoothDevice =
  gatt :: "BluetoothRemoteGATTServer option"

record web_world =
  web_device :: "BluetoothDevice option"
  controlService :: "int option"
  web_trace :: "web_event list"

text \<open>\<^verbatim>\<open>isConnected()\<close>: \<^verbatim>\<open>!!this.device?.gatt?.connected\<close>.\<close>

definition web_isConnected :: "web_world \<Rightarrow> bool" where
  "web_isConnected s =
     (case web_device s of
        None \<Rightarrow> False
      | Some d \<Rightarrow> (case gatt d of None \<Rightarrow> False | Some g \<Rightarrow> connected g))"

text \<open>
  The guard of every method reads \<^verbatim>\<open>!this.controlService || !this.isConnected\<close>: its
  second operand negates the method itself, not the result of calling it, and a
  function object is truthy.
\<close>

definition isConnected_method_truthy :: bool where
  "isConnected_method_truthy = True"

definition web_not_initialized :: "web_world \<Rightarrow> bool" where
  "web_not_initialized s = (controlService s = None \<or> \<not> isConnected_method_truthy)"

definition web_record :: "web_event \<Rightarrow> web_world \<Rightarrow> web_world" where
  "web_record ev s = s\<lparr>web_trace := web_trace s @ [ev]\<rparr>"

definition web_getCharacteristic :: "'e WebBluetooth \<Rightarrow> int \<Rightarrow> ('e thrown, web_world, int) task" where
  "web_getCharacteristic wb uuid = (\<lambda>s.
     case getCharacteristic wb (web_trace s) uuid of
       None \<Rightarrow> (Some (Inr uuid), web_record (GetCharacteristic uuid) s)
     | Some e \<Rightarrow> (Some (Inl (Transport e)), web_record (GetCharacteristic uuid) s))"

definition web_writeValue ::
  "'e WebBluetooth \<Rightarrow> int \<Rightarrow> int list \<Rightarrow> ('e thrown, web_world, unit) task" where
  "web_writeValue wb chr bytes = (\<lambda>s.
     case writeValue wb (web_trace s) chr bytes of
       None \<Rightarrow> (Some (Inr ()), web_record (WriteValue chr bytes) s)
     | Some e \<Rightarrow> (Some (Inl (Transport e)), web_record (WriteValue chr bytes) s))"

definition web_readValue :: "'e WebBluetooth \<Rightarrow> int \<Rightarrow> ('e thrown, web_world, int list) task" where
  "web_readValue wb chr = (\<lambda>s.
     case readValue wb (web_trace s) chr of
       Inr bytes \<Rightarrow> (Some (Inr bytes), web_record (ReadValue chr) s)
     | Inl e \<Rightarrow> (Some (Inl (Transport e)), web_record (ReadValue chr) s))"

text \<open>
  \<^verbatim>\<open>tranformArrayToData\<close> of an array of numbers: each is stored into a
  \<^verbatim>\<open>Uint8Array\<close>, that is, reduced modulo 256. An \<^verbatim>\<open>ArrayBuffer\<close> is passed as it is.
\<close>

definition tranformArrayToData :: "int list \<Rightarrow> int list" where
  "tranformArrayToData arr = map (\<lambda>v. v mod 256) arr"

text \<open>
  \<^verbatim>\<open>getBattery\<close> (React): a failure of \<^verbatim>\<open>readValue\<close>, and the \<^verbatim>\<open>RangeError\<close> of
  \<^verbatim>\<open>getUint8(0)\<close> on an empty value, are caught and logged, and \<open>-1\<close> is returned.
\<close>

definition web_getBattery :: "'e WebBluetooth \<Rightarrow> ('e thrown, web_world, int) task" where
  "web_getBattery wb = (\<lambda>s.
     if web_not_initialized s then (Some (Inl (Rejected deviceNotInitMsg)), s)
     else
       await (web_getCharacteristic wb WEB_BATTERY_LEVEL_UUID) (\<lambda>batteryChar s1.
         case web_readValue wb batteryChar s1 of
           (None, s2) \<Rightarrow> (None, s2)
         | (Some (Inr (b # bs)), s2) \<Rightarrow> (Some (Inr b), s2)
         | (Some (Inr []), s2) \<Rightarrow> (Some (Inr (- 1)), s2)
         | (Some (Inl e), s2) \<Rightarrow> (Some (Inr (- 1)), s2)) s)"

text \<open>The progress values in a trace of the React SDK.\<close>

fun web_reported :: "web_event list \<Rightarrow> int list" where
  "web_reported [] = []"
| "web_reported (WebProgress v # t) = v # web_reported t"
| "web_reported (ev # t) = web_reported t"

definition web_report :: "bool \<Rightarrow> int \<Rightarrow> ('x, web_world, unit) task" where
  "web_report onProgress v = (\<lambda>s.
     if onProgress then (Some (Inr ()), web_record (WebProgress v) s) else (Some (Inr ()), s))"

fun web_send_chunks ::
  "'e WebBluetooth \<Rightarrow> bool \<Rightarrow> int \<Rightarrow> nat \<Rightarrow> nat \<Rightarrow> int list list \<Rightarrow> ('e thrown, web_world, unit) task" where
  "web_send_chunks wb onProgress otaChar n i [] = resolve ()"
| "web_send_chunks wb onProgress otaChar n i (chunk # rest) =
     await (web_writeValue wb otaChar chunk) (\<lambda>_.
     await (web_report onProgress (progress_percent i n)) (\<lambda>_.
     web_send_chunks wb onProgress otaChar n (Suc i) rest))"

text \<open>
  \<^verbatim>\<open>flashFirmware\<close> (React); the packet size is the constant \<open>256 - 3\<close>, and the image
  an \<^verbatim>\<open>ArrayBuffer\<close>, given by its bytes.
\<close>

definition web_flashFirmware ::
  "'e WebBluetooth \<Rightarrow> int list \<Rightarrow> bool \<Rightarrow> ('e thrown, web_world, unit) task" where
  "web_flashFirmware wb firmware onProgress = (\<lambda>s.
     if web_not_initialized s then (Some (Inl (Rejected deviceNotInitMsg)), s)
     else
       (let packetSize = DEFAULT_MTU_SIZE - 3 in
        await (make_chunks (chunks_of_buffer firmware packetSize)) (\<lambda>chunks.
        await (web_getCharacteristic wb WEB_OTA_DATA_UUID) (\<lambda>otaChar.
        await (web_getCharacteristic wb WEB_OTA_CONTROL_UUID) (\<lambda>otaCtrlChar.
        await (web_writeValue wb otaChar (tranformArrayToData [packetSize, 0])) (\<lambda>_.
        await (web_writeValue wb otaCtrlChar (tranformArrayToData [1])) (\<lambda>_.
        await (web_send_chunks wb onProgress otaChar (length chunks) 0 chunks) (\<lambda>_.
        web_writeValue wb otaCtrlChar (tranformArrayToData [4])))))))) s)"

section \<open>Libraries used in the examples\<close>

text \<open>
  A Bluetooth library that reports the peripheral connected, grants the MTU \<open>m\<close>,
  reads \<open>bytes\<close> from every characteristic and resolves every other call; and a Web
  Bluetooth stack whose every call is rejected with \<open>e\<close>, as on a dropped link.
\<close>

definition ble_ok :: "int \<Rightarrow> int list \<Rightarrow> ('e, 'l) BleManager" where
  "ble_ok m bytes =
     \<lparr>isPeripheralConnected = (\<lambda>t deviceId. Inr True),
      read = (\<lambda>t deviceId srv chr. Inr bytes),
      requestMTU = (\<lambda>t deviceId mtu. Inr m),
      perform = (\<lambda>t c. None)\<rparr>"

definition web_dropped :: "'e \<Rightarrow> 'e WebBluetooth" where
  "web_dropped e =
     \<lparr>getCharacteristic = (\<lambda>t uuid. Some e),
      writeValue = (\<lambda>t chr bytes. Some e),
      readValue = (\<lambda>t chr. Inl e)\<rparr>"

text \<open>
  A Web Bluetooth stack on which only \<^verbatim>\<open>readValue\<close> is rejected; the device and the
  platform of the examples; the state that a successful \<^verbatim>\<open>connect\<close> of a new
  \<^verbatim>\<open>KiirooControl\<close> leaves; and the React instance after \<^verbatim>\<open>connect\<close>, with the
  link up and with the link gone.
\<close>

definition web_read_fails :: "'e \<Rightarrow> 'e WebBluetooth" where
  "web_read_fails e =
     \<lparr>getCharacteristic = (\<lambda>t uuid. None),
      writeValue = (\<lambda>t chr bytes. None),
      readValue = (\<lambda>t chr. Inl e)\<rparr>"

definition example_device :: Device where
  "example_device = \<lparr>dev_id = ''id'', dev_name = ''name''\<rparr>"

definition android_13 :: Platform where
  "android_13 = \<lparr>OS = ''android'', versionNumber = Some 33\<rparr>"

definition connected_world :: "Device \<Rightarrow> 'l world" where
  "connected_world d =
     \<lparr>device = Some d,
      notificationData = \<lparr>axisX = 0, axisY = 0, axisZ = 0\<rparr>,
      acceleration = 0,
      sensor = \<lparr>ee = (\<lambda>_. [])\<rparr>,
      callbacks = table_set \<lparr>own = Map.empty, proto = None\<rparr> (dev_id d)
        \<lparr>callback = Some (OnAxisNotification d), service = KIIROO_CONTROL_SERVICE_UUID,
         characteristic = CHAR_Z_UUID\<rparr>,
      trace = [Called (Connect (dev_id d)),
               Called (RetrieveServices (dev_id d)),
               Called (StartNotification (dev_id d) KIIROO_CONTROL_SERVICE_UUID CHAR_X_UUID),
               Called (StartNotification (dev_id d) KIIROO_CONTROL_SERVICE_UUID CHAR_Y_UUID),
               Called (StartNotification (dev_id d) KIIROO_CONTROL_SERVICE_UUID CHAR_Z_UUID)]\<rparr>"

text \<open>The same state with one listener subscribed to the device's sensor events.\<close>

definition subscribed_world :: "Device \<Rightarrow> 'l \<Rightarrow> 'l world" where
  "subscribed_world d l =
     (connected_world d)\<lparr>sensor := subscribe (dev_id d) l (sensor (connected_world d))\<rparr>"

definition web_connected :: web_world where
  "web_connected =
     \<lparr>web_device = Some \<lparr>gatt = Some \<lparr>connected = True\<rparr>\<rparr>,
      controlService = Some 0x1400,
      web_trace = []\<rparr>"

definition web_link_lost :: web_world where
  "web_link_lost =
     \<lparr>web_device = Some \<lparr>gatt = Some \<lparr>connected = False\<rparr>\<rparr>,
      controlService = Some 0x1400,
      web_trace = []\<rparr>"

section \<open>Notions used in the proofs\<close>

text \<open>
  The number of steps that the chunking loop makes on an image of length \<open>l\<close> with a
  positive packet size \<open>p\<close>, and the slice it takes at its \<open>k\<close>-th step.
\<close>

definition chunk_count :: "nat \<Rightarrow> nat \<Rightarrow> nat" where
  "chunk_count l p = (l + p - 1) div p"

definition nth_chunk :: "'a list \<Rightarrow> nat \<Rightarrow> nat \<Rightarrow> 'a list" where
  "nth_chunk xs p k = take p (drop (k * p) xs)"

text \<open>
  The write of one chunk, what one step of the streaming loop adds to the trace when
  its write resolves, and what the loop adds for a list of chunks when every write
  does; the same for the React SDK, on the characteristic \<open>otaChar\<close>.
\<close>

definition chunk_write :: "string \<Rightarrow> int list \<Rightarrow> ble_call" where
  "chunk_write deviceId chunk =
     Write deviceId KIIROO_CONTROL_SERVICE_UUID OTA_DATA_UUID chunk (Some (int (length chunk)))"

definition chunk_events :: "string \<Rightarrow> bool \<Rightarrow> nat \<Rightarrow> nat \<Rightarrow> int list \<Rightarrow> 'l event list" where
  "chunk_events deviceId onProgress n i chunk =
     [Called (IsPeripheralConnected deviceId), Called (chunk_write deviceId chunk)]
     @ (if onProgress then [Progress (progress_percent i n)] else [])"

fun stream_events :: "string \<Rightarrow> bool \<Rightarrow> nat \<Rightarrow> nat \<Rightarrow> int list list \<Rightarrow> 'l event list" where
  "stream_events deviceId onProgress n i [] = []"
| "stream_events deviceId onProgress n i (chunk # rest) =
     chunk_events deviceId onProgress n i chunk @ stream_events deviceId onProgress n (Suc i) rest"



text \<open>
  The calls of the React \<^verbatim>\<open>flashFirmware\<close> before its streaming loop: it gets the two
  characteristics, writes the packet size and writes the start command.
\<close>

definition web_setup :: "web_event list" where
  "web_setup =
     [GetCharacteristic WEB_OTA_DATA_UUID,
      GetCharacteristic WEB_OTA_CONTROL_UUID,
      WriteValue WEB_OTA_DATA_UUID (tranformArrayToData [DEFAULT_MTU_SIZE - 3, 0]),
      WriteValue WEB_OTA_CONTROL_UUID (tranformArrayToData [1])]"

text \<open>
  A task that calls the library and does nothing else to the state: it reports no
  progress, delivers no sensor event and leaves the device of the facade as it is.
\<close>

definition silent :: "('x, 'l world, 'a) task \<Rightarrow> bool" where
  "silent m =
     (\<forall>s r s'. m s = (r, s') \<longrightarrow> device s' = device s \<and> (\<exists>cs. trace s' = trace s @ map Called cs))"

text \<open>
  The trace \<open>t'\<close> and the outcome \<open>r\<close> of a transfer that starts with the trace \<open>t\<close>:
  either it stops before its streaming loop, having made calls only; or it has chunks,
  the loop has sent the first \<open>k\<close> of them, each write resolved by the library and
  followed by its progress report, and the rest of the trace are calls: when \<open>k\<close> is
  not the number of chunks, the failed attempt at the chunk of index \<open>k\<close>.
\<close>

definition transfer_trace ::
  "('e, 'l) BleManager \<Rightarrow> firmware \<Rightarrow> bool \<Rightarrow> Device \<Rightarrow> 'l event list
     \<Rightarrow> ('x + 'a) option \<Rightarrow> 'l event list \<Rightarrow> bool" where
  "transfer_trace ble fw onProgress d t r t' =
     ((\<exists>cs. t' = t @ map Called cs \<and> (\<forall>a. r \<noteq> Some (Inr a)))
      \<or> (\<exists>m chunks k pre post.
            chunks_of_firmware fw (m - 3) = Some chunks \<and> k \<le> length chunks
          \<and> t' = t @ map Called pre
                   @ stream_events (dev_id d) onProgress (length chunks) 0 (take k chunks)
                   @ map Called post
          \<and> (\<forall>j<k. perform ble
                       (t @ map Called pre
                          @ stream_events (dev_id d) onProgress (length chunks) 0 (take j chunks)
                          @ [Called (IsPeripheralConnected (dev_id d))])
                       (chunk_write (dev_id d) (chunks ! j)) = None)
          \<and> (k < length chunks \<longrightarrow>
                (\<forall>a. r \<noteq> Some (Inr a))
              \<and> (post = [IsPeripheralConnected (dev_id d)]
                 \<or> post = [IsPeripheralConnected (dev_id d), chunk_write (dev_id d) (chunks ! k)]
                   \<and> perform ble
                       (t @ map Called pre
                          @ stream_events (dev_id d) onProgress (length chunks) 0 (take k chunks)
                          @ [Called (IsPeripheralConnected (dev_id d))])
                       (chunk_write (dev_id d) (chunks ! k)) \<noteq> None))
          \<and> ((\<exists>a. r = Some (Inr a)) \<longrightarrow> k = length chunks)))"

definition streams ::
  "('e, 'l) BleManager \<Rightarrow> firmware \<Rightarrow> bool \<Rightarrow> Device \<Rightarrow> ('x, 'l world, 'a) task \<Rightarrow> bool" where
  "streams ble fw onProgress d m =
     (\<forall>s r s'. device s = Some d \<longrightarrow> m s = (r, s') \<longrightarrow>
        transfer_trace ble fw onProgress d (trace s) r (trace s'))"

declare chunk_loop.simps [code]

section \<open>The chunking loop\<close>

lemma js_slice_inside:
  "0 \<le> i \<Longrightarrow> 0 < p \<Longrightarrow> js_slice xs i (i + p) = take (nat p) (drop (nat i) xs)"
  by (auto simp: js_slice_def Let_def min_def max_def)

lemma chunk_count_less: "0 < p \<Longrightarrow> k < chunk_count l p \<longleftrightarrow> k * p < l"
proof -
  assume p: "0 < p"
  have "k < (l + p - 1) div p \<longleftrightarrow> (k + 1) * p \<le> l + p - 1"
    using p by (metis Suc_eq_plus1 less_eq_Suc_le less_eq_div_iff_mult_less_eq)
  also have "\<dots> \<longleftrightarrow> k * p < l" using p by (cases p) auto
  finally show ?thesis by (simp add: chunk_count_def)
qed

lemma chunk_count_covers: "0 < p \<Longrightarrow> l \<le> chunk_count l p * p"
  using chunk_count_less[of p "chunk_count l p" l] by auto

lemma chunk_count_pos: "0 < p \<Longrightarrow> 0 < l \<Longrightarrow> 0 < chunk_count l p"
  using chunk_count_less[of p 0 l] by simp

lemma chunk_count_ceiling:
  assumes "0 < p" "0 < l"
  shows "int (chunk_count l p) = \<lceil>(of_nat l :: rat) / of_nat p\<rceil>"
proof -
  define n where "n = chunk_count l p"
  have n0: "0 < n" using chunk_count_pos[OF assms] by (simp add: n_def)
  have "(n - 1) * p < l" using chunk_count_less[OF assms(1), of "n - 1" l] n0 by (simp add: n_def)
  then have a: "(of_nat ((n - 1) * p) :: rat) < of_nat l" by (simp only: of_nat_less_iff)
  have "l \<le> n * p" using chunk_count_covers[OF assms(1), of l] by (simp add: n_def)
  then have b: "(of_nat l :: rat) \<le> of_nat (n * p)" by (simp only: of_nat_le_iff)
  have p': "(0::rat) < of_nat p" using assms(1) by simp
  have "(of_nat (n - 1) :: rat) < of_nat l / of_nat p"
    using a p' by (simp add: pos_less_divide_eq)
  moreover have "(of_nat (n - 1) :: rat) = of_int (int n) - 1" using n0 by (simp add: of_nat_diff)
  moreover have "(of_nat l :: rat) / of_nat p \<le> of_int (int n)"
    using b p' by (simp add: pos_divide_le_eq)
  ultimately have "\<lceil>(of_nat l :: rat) / of_nat p\<rceil> = int n"
    by (intro ceiling_unique) simp_all
  then show ?thesis by (simp add: n_def)
qed

text \<open>
  Entered at the offset \<open>k * p\<close> with the length of the image as its bound, the loop
  appends the slices \<open>k\<close>, \<open>k + 1\<close>, \<dots> up to the last one and returns.
\<close>

lemma chunk_loop_from:
  assumes p: "0 < p"
  shows "k \<le> chunk_count (length fw) p \<Longrightarrow>
         chunk_loop fw (Some (int (length fw))) (int p) (int (k * p)) acc =
           Some (acc @ map (nth_chunk fw p) [k..<chunk_count (length fw) p])"
proof (induction "chunk_count (length fw) p - k" arbitrary: k acc)
  case 0
  then have k: "k = chunk_count (length fw) p" by simp
  then have "\<not> k * p < length fw" using chunk_count_less[OF p, of k "length fw"] by simp
  then have "\<not> js_less (int (k * p)) (Some (int (length fw)))" by (simp del: of_nat_mult)
  then have "chunk_loop fw (Some (int (length fw))) (int p) (int (k * p)) acc = Some acc"
    by (subst chunk_loop.simps) (simp only: if_False)
  then show ?case using k by simp
next
  case (Suc d)
  then have lt: "k < chunk_count (length fw) p" by simp
  then have "k * p < length fw" using chunk_count_less[OF p] by simp
  then have kp: "js_less (int (k * p)) (Some (int (length fw)))" by (simp del: of_nat_mult)
  have sl: "js_slice fw (int (k * p)) (int (k * p) + int p) = nth_chunk fw p k"
    using p by (simp add: js_slice_inside nth_chunk_def del: of_nat_mult)
  have nx: "int (k * p) + int p = int (Suc k * p)" by simp
  have ih: "chunk_loop fw (Some (int (length fw))) (int p) (int (Suc k * p)) (acc @ [nth_chunk fw p k]) =
      Some ((acc @ [nth_chunk fw p k]) @ map (nth_chunk fw p) [Suc k..<chunk_count (length fw) p])"
    using Suc lt by (intro Suc.hyps(1)) auto
  have "chunk_loop fw (Some (int (length fw))) (int p) (int (k * p)) acc =
        chunk_loop fw (Some (int (length fw))) (int p) (int (Suc k * p)) (acc @ [nth_chunk fw p k])"
    by (subst chunk_loop.simps) (simp only: kp if_True sl, simp only: nx)
  then show ?case using ih lt by (simp add: upt_conv_Cons del: of_nat_mult)
qed

lemma chunk_loop_positive:
  assumes "0 < packetSize"
  shows "chunk_loop fw (Some (int (length fw))) packetSize 0 [] =
           Some (map (nth_chunk fw (nat packetSize)) [0..<chunk_count (length fw) (nat packetSize)])"
  using chunk_loop_from[of "nat packetSize" 0 fw "[]"] assms by simp

lemma chunk_loop_empty: "chunk_loop [] (Some (int (length [])))  packetSize 0 acc = Some acc"
  by (subst chunk_loop.simps) simp

lemma chunk_loop_undefined: "chunk_loop fw None packetSize i acc = Some acc"
  by (subst chunk_loop.simps) simp

lemma chunks_of_buffer_positive:
  "0 < packetSize \<Longrightarrow>
   chunks_of_buffer fw packetSize =
     Some (map (nth_chunk fw (nat packetSize)) [0..<chunk_count (length fw) (nat packetSize)])"
  by (simp add: chunks_of_buffer_def byteLength_def chunk_loop_positive)

lemma chunks_of_array_positive:
  "0 < packetSize \<Longrightarrow>
   chunks_of_firmware (NumberArray fw) packetSize =
     Some (map (nth_chunk fw (nat packetSize)) [0..<chunk_count (length fw) (nat packetSize)])"
  by (simp add: chunks_of_firmware_def chunk_loop_positive)

lemma chunks_of_array_empty: "chunks_of_firmware (NumberArray []) packetSize = Some []"
  using chunk_loop_empty[of packetSize "[]"] by (simp add: chunks_of_firmware_def)

lemma chunks_of_ArrayBuffer: "chunks_of_firmware (ArrayBuffer fw) packetSize = Some []"
  by (simp add: chunks_of_firmware_def chunk_loop_undefined)

lemma concat_nth_chunks: "concat (map (nth_chunk xs p) [0..<m]) = take (m * p) xs"
proof (induction m)
  case 0
  show ?case by simp
next
  case (Suc m)
  have "take (m * p) xs @ take p (drop (m * p) xs) = take (m * p + p) xs"
    by (simp add: take_add)
  then show ?case using Suc by (simp add: nth_chunk_def add.commute)
qed

lemma length_nth_chunk: "length (nth_chunk xs p k) = min p (length xs - k * p)"
  by (simp add: nth_chunk_def min.commute)

lemma length_nth_chunk_full:
  assumes "0 < p" "Suc k < chunk_count (length xs) p"
  shows "length (nth_chunk xs p k) = p"
proof -
  have "Suc k * p < length xs" using chunk_count_less[OF assms(1)] assms(2) by blast
  then show ?thesis by (simp add: length_nth_chunk)
qed

lemma length_nth_chunk_last:
  assumes "0 < p" "0 < length xs"
  shows "length (nth_chunk xs p (chunk_count (length xs) p - 1)) =
           length xs - p * (chunk_count (length xs) p - 1)"
proof -
  define n where "n = chunk_count (length xs) p"
  have "0 < n" using chunk_count_pos[OF assms] by (simp add: n_def)
  then have "length xs \<le> (n - 1) * p + p"
    using chunk_count_covers[OF assms(1), of "length xs"]
    by (cases n) (simp_all add: n_def add.commute)
  then show ?thesis unfolding n_def[symmetric]
    by (simp add: length_nth_chunk mult.commute)
qed

text \<open>The chunks of an image of positive length, for a packet size of at least 1.\<close>

lemma chunks_partition:
  assumes "0 < length firmware" and "1 \<le> packetSize"
  defines "chunks \<equiv> map (nth_chunk firmware (nat packetSize))
                       [0..<chunk_count (length firmware) (nat packetSize)]"
  shows "int (length chunks) = \<lceil>(of_nat (length firmware) :: rat) / of_int packetSize\<rceil>"
    and "\<forall>k. Suc k < length chunks \<longrightarrow> int (length (chunks ! k)) = packetSize"
    and "int (length (last chunks)) =
           int (length firmware) - packetSize * (int (length chunks) - 1)"
    and "\<forall>k < length chunks.
           chunks ! k = take (nat packetSize) (drop (k * nat packetSize) firmware)"
    and "concat chunks = firmware"
proof -
  define p where "p = nat packetSize"
  define n where "n = chunk_count (length firmware) p"
  have c: "chunks = map (nth_chunk firmware p) [0..<n]" by (simp add: chunks_def p_def n_def)
  have p: "0 < p" and ps: "packetSize = int p" using assms(2) by (simp_all add: p_def)
  have n: "0 < n" using chunk_count_pos[OF p assms(1)] by (simp add: n_def)
  have len: "length chunks = n" by (simp add: c)
  show "int (length chunks) = \<lceil>(of_nat (length firmware) :: rat) / of_int packetSize\<rceil>"
    using chunk_count_ceiling[OF p assms(1)] by (simp add: len n_def ps)
  show "\<forall>k. Suc k < length chunks \<longrightarrow> int (length (chunks ! k)) = packetSize"
    using length_nth_chunk_full[OF p, of _ firmware]
    by (simp add: c n_def ps)
  have "last chunks = nth_chunk firmware p (n - 1)"
    using n by (simp add: c last_map)
  then have "length (last chunks) = length firmware - p * (n - 1)"
    using length_nth_chunk_last[OF p assms(1)] by (simp add: n_def)
  moreover have "p * (n - 1) \<le> length firmware"
    using chunk_count_less[OF p, of "n - 1" "length firmware"] n
    by (simp add: n_def mult.commute)
  ultimately show "int (length (last chunks)) =
      int (length firmware) - packetSize * (int (length chunks) - 1)"
    using n by (simp add: len ps of_nat_diff)
  show "\<forall>k < length chunks.
      chunks ! k = take (nat packetSize) (drop (k * nat packetSize) firmware)"
    by (simp add: c nth_chunk_def p_def)
  have "concat chunks = take (n * p) firmware"
    by (simp add: c concat_nth_chunks)
  then show "concat chunks = firmware"
    using chunk_count_covers[OF p, of "length firmware"] by (simp add: n_def)
qed

section \<open>The axis decoder\<close>

lemma Math_round_band:
  fixes m r :: real
  assumes acc: "\<bar>m - r\<bar> \<le> r / 2 ^ 52"
    and lo: "of_int k - 49 / 100 \<le> r" and hi: "r \<le> of_int k + 49 / 100" and r6: "r \<le> 6"
  shows "Math_round m = k"
proof -
  have "r / 2 ^ 52 \<le> 6 / 2 ^ 52" using r6 by (simp add: divide_right_mono)
  also have "\<dots> \<le> (1 / 1000 :: real)" by simp
  finally have near: "\<bar>m - r\<bar> \<le> 1 / 1000" using acc by simp
  have "of_int k \<le> m + 1 / 2" using near lo by linarith
  moreover have "m + 1 / 2 < of_int k + 1" using near hi by linarith
  ultimately show ?thesis unfolding Math_round_def by (intro floor_unique) simp_all
qed

lemma Math_round_large:
  fixes m r :: real
  assumes acc: "\<bar>m - r\<bar> \<le> r / 2 ^ 52" and lo: "451 / 100 \<le> r"
  shows "5 \<le> Math_round m"
proof -
  have "r / 2 ^ 52 \<le> r / 451" using lo by (intro divide_left_mono) simp_all
  then have "r - r / 451 \<le> m" using acc by linarith
  moreover have "450 / 100 \<le> r - r / 451" using lo by simp
  ultimately have "of_int 5 \<le> m + 1 / 2" by linarith
  then show ?thesis unfolding Math_round_def by (simp only: le_floor_iff)
qed

lemma magnitude_bands:
  assumes "sqrt_accurate msqrt" and "0 \<le> s"
  shows "min (Math_round (msqrt (of_int s))) 5 =
           (if s = 0 then 0 else if s \<le> 2 then 1 else if s \<le> 6 then 2
            else if s \<le> 12 then 3 else if s \<le> 20 then 4 else 5)"
proof -
  define r where "r = sqrt (of_int s)"
  define m where "m = msqrt (of_int s)"
  have acc: "\<bar>m - r\<bar> \<le> r / 2 ^ 52"
    using assms by (simp add: sqrt_accurate_def m_def r_def)
  have lower: "c \<le> r" if "0 \<le> c" "c\<^sup>2 \<le> of_int s" for c
    using that unfolding r_def by (intro real_le_rsqrt)
  have upper: "r \<le> c" if "0 \<le> c" "of_int s \<le> c\<^sup>2" for c
    using that unfolding r_def by (intro real_le_lsqrt) simp_all
  consider "s = 0" | "1 \<le> s" "s \<le> 2" | "3 \<le> s" "s \<le> 6" | "7 \<le> s" "s \<le> 12"
    | "13 \<le> s" "s \<le> 20" | "21 \<le> s"
    using assms(2) by linarith
  then show ?thesis
  proof cases
    case 1
    then have "r = 0" by (simp add: r_def)
    then have "Math_round m = 0" using acc by (intro Math_round_band[of m r]) simp_all
    then show ?thesis using 1 by (simp add: m_def)
  next
    case 2
    have "51 / 100 \<le> r" using 2 by (intro lower) (simp_all add: power2_eq_square)
    moreover have "r \<le> 149 / 100" using 2 by (intro upper) (simp_all add: power2_eq_square)
    ultimately have "Math_round m = 1" using acc by (intro Math_round_band[of m r]) simp_all
    then show ?thesis using 2 by (simp add: m_def)
  next
    case 3
    have "151 / 100 \<le> r" using 3 by (intro lower) (simp_all add: power2_eq_square)
    moreover have "r \<le> 249 / 100" using 3 by (intro upper) (simp_all add: power2_eq_square)
    ultimately have "Math_round m = 2" using acc by (intro Math_round_band[of m r]) simp_all
    then show ?thesis using 3 by (simp add: m_def)
  next
    case 4
    have "251 / 100 \<le> r" using 4 by (intro lower) (simp_all add: power2_eq_square)
    moreover have "r \<le> 349 / 100" using 4 by (intro upper) (simp_all add: power2_eq_square)
    ultimately have "Math_round m = 3" using acc by (intro Math_round_band[of m r]) simp_all
    then show ?thesis using 4 by (simp add: m_def)
  next
    case 5
    have "351 / 100 \<le> r" using 5 by (intro lower) (simp_all add: power2_eq_square)
    moreover have "r \<le> 449 / 100" using 5 by (intro upper) (simp_all add: power2_eq_square)
    ultimately have "Math_round m = 4" using acc by (intro Math_round_band[of m r]) simp_all
    then show ?thesis using 5 by (simp add: m_def)
  next
    case 6
    have "451 / 100 \<le> r" using 6 by (intro lower) (simp_all add: power2_eq_square)
    then have "5 \<le> Math_round m" using acc by (intro Math_round_large[of m r])
    then show ?thesis using 6 by (simp add: m_def)
  qed
qed

lemma sqrt_accurate_sqrt: "sqrt_accurate sqrt"
  by (simp add: sqrt_accurate_def)

lemma Math_round_eq_round: "Math_round x = round x"
  by (simp add: Math_round_def round_def)

lemma sum_squares_nonneg: "0 \<le> (x::int)\<^sup>2 + y\<^sup>2 + z\<^sup>2"
  by simp

text \<open>
  C2. For every axis sample with each component between 0 and 255, the magnitude that
  \<^verbatim>\<open>calculateTotalAcceleration\<close> returns is \<open>min (round (sqrt (x\<^sup>2 + y\<^sup>2 + z\<^sup>2))) 5\<close>,
  whatever rounding error \<^verbatim>\<open>Math.sqrt\<close> makes within its accuracy. It is a function of
  the sample alone: the method reads nothing else.
\<close>

theorem magnitude_formula:
  assumes "sqrt_accurate msqrt"
    and "0 \<le> x" "x \<le> 255" "0 \<le> y" "y \<le> 255" "0 \<le> z" "z \<le> 255"
  shows "calculateTotalAcceleration msqrt \<lparr>axisX = x, axisY = y, axisZ = z\<rparr> =
           min (round (sqrt (of_int (x\<^sup>2 + y\<^sup>2 + z\<^sup>2)))) 5"
proof -
  have "min (Math_round (msqrt (of_int (x\<^sup>2 + y\<^sup>2 + z\<^sup>2)))) 5 =
        min (Math_round (sqrt (of_int (x\<^sup>2 + y\<^sup>2 + z\<^sup>2)))) 5"
    using magnitude_bands[OF assms(1) sum_squares_nonneg]
      magnitude_bands[OF sqrt_accurate_sqrt sum_squares_nonneg] by (simp only:)
  then show ?thesis
    by (simp add: calculateTotalAcceleration_def Math_round_eq_round)
qed

lemma sqrt25: "sqrt 25 = 5"
  using real_sqrt_abs[of 5] by simp

theorem magnitude_formula_witness:
  "sqrt_accurate sqrt \<and> (0::int) \<le> 3 \<and> (3::int) \<le> 255 \<and> (0::int) \<le> 4 \<and> (4::int) \<le> 255
   \<and> (0::int) \<le> 0 \<and> (0::int) \<le> 255
   \<and> calculateTotalAcceleration sqrt \<lparr>axisX = 3, axisY = 4, axisZ = 0\<rparr> = 5"
  using magnitude_formula[OF sqrt_accurate_sqrt, of 3 4 0] sqrt_accurate_sqrt
  by (simp add: sqrt25)


text \<open>
  C7. \<^verbatim>\<open>set_fffx\<close> with one of the three axis tags stores the value in the field of
  that tag and leaves the other two fields as they were; with any other tag it throws
  an error that names the tag, and updates nothing.
\<close>

theorem set_fffx_decodes_tag:
  "set_fffx CHAR_X_UUID v d =
     (Inr \<lparr>axisX = v, axisY = axisY d, axisZ = axisZ d\<rparr> :: 'e thrown + DeviceData)
   \<and> set_fffx CHAR_Y_UUID v d =
     (Inr \<lparr>axisX = axisX d, axisY = v, axisZ = axisZ d\<rparr> :: 'e thrown + DeviceData)
   \<and> set_fffx CHAR_Z_UUID v d =
     (Inr \<lparr>axisX = axisX d, axisY = axisY d, axisZ = v\<rparr> :: 'e thrown + DeviceData)
   \<and> (tag \<noteq> CHAR_X_UUID \<and> tag \<noteq> CHAR_Y_UUID \<and> tag \<noteq> CHAR_Z_UUID \<longrightarrow>
        set_fffx tag v d =
          (Inl (Error_thrown (''Property '' @ tag @ '' does not exist on DeviceData.''))
             :: 'e thrown + DeviceData))"
  by (simp add: set_fffx_def CHAR_X_UUID_def CHAR_Y_UUID_def CHAR_Z_UUID_def)

theorem set_fffx_decodes_tag_witness:
  "''FFF4'' \<noteq> CHAR_X_UUID \<and> ''FFF4'' \<noteq> CHAR_Y_UUID \<and> ''FFF4'' \<noteq> CHAR_Z_UUID
   \<and> set_fffx ''FFF4'' 7 \<lparr>axisX = 1, axisY = 2, axisZ = 3\<rparr> =
       (Inl (Error_thrown ''Property FFF4 does not exist on DeviceData.'') :: unit thrown + DeviceData)
   \<and> set_fffx CHAR_Y_UUID 7 \<lparr>axisX = 1, axisY = 2, axisZ = 3\<rparr> =
       (Inr \<lparr>axisX = 1, axisY = 7, axisZ = 3\<rparr> :: unit thrown + DeviceData)"
  using set_fffx_decodes_tag[of 7 "\<lparr>axisX = 1, axisY = 2, axisZ = 3\<rparr>" "''FFF4''",
      where ?'e = unit]
  by (simp add: CHAR_X_UUID_def CHAR_Y_UUID_def CHAR_Z_UUID_def)


section \<open>Rounding to double precision\<close>





lemma rne_of_int [simp]: "rne (of_int k) = k"
  by (simp add: rne_def)

















lemma exact_round_23_40: "Math_round (of_nat 23 / of_nat 40 * 100 :: rat) = 58"
  by (simp add: Math_round_def)

section \<open>Tasks\<close>

lemma await_resolve [simp]: "await (resolve a) k = k a"
  by (simp add: await_def resolve_def)

lemma await_reject [simp]: "await (reject e) k = reject e"
  by (simp add: await_def reject_def)

lemma await_Inr: "m s = (Some (Inr a), s1) \<Longrightarrow> await m k s = k a s1"
  by (simp add: await_def)

lemma await_Inl: "m s = (Some (Inl e), s1) \<Longrightarrow> await m k s = (Some (Inl e), s1)"
  by (simp add: await_def)

lemma await_None: "m s = (None, s1) \<Longrightarrow> await m k s = (None, s1)"
  by (simp add: await_def)

lemma await_cases:
  assumes "await m k s = (r, s')"
  obtains (never) "m s = (None, s')" "r = None"
        | (rejected) e where "m s = (Some (Inl e), s')" "r = Some (Inl e)"
        | (resolved) a s1 where "m s = (Some (Inr a), s1)" "k a s1 = (r, s')"
  using assms by (auto simp: await_def split: option.splits sum.splits prod.splits)


lemma reported_calls [simp]: "reported (map Called cs) = []"
  by (induction cs) simp_all


lemma trace_record_event [simp]: "trace (record_event ev s) = trace s @ [ev]"
  and device_record_event [simp]: "device (record_event ev s) = device s"
  and callbacks_record_event [simp]: "callbacks (record_event ev s) = callbacks s"
  by (simp_all add: record_event_def)

section \<open>Tasks that only call the library\<close>

lemma silentI:
  "(\<And>s r s'. m s = (r, s') \<Longrightarrow> device s' = device s \<and> (\<exists>cs. trace s' = trace s @ map Called cs))
     \<Longrightarrow> silent m"
  by (simp add: silent_def)

lemma silentD:
  assumes "silent m" and "m s = (r, s')"
  shows "device s' = device s" and "\<exists>cs. trace s' = trace s @ map Called cs"
  using assms by (simp_all add: silent_def)

lemma silent_now: "trace s' = trace s \<Longrightarrow> \<exists>cs. trace s' = trace s @ map Called cs"
  by (rule exI[of _ "[]"]) simp

lemma silent_call: "trace s' = trace s @ [Called c] \<Longrightarrow> \<exists>cs. trace s' = trace s @ map Called cs"
  by (rule exI[of _ "[c]"]) simp

lemma silent_then:
  assumes "trace s1 = trace s @ map Called cs1" and "\<exists>cs. trace s' = trace s1 @ map Called cs"
  shows "\<exists>cs. trace s' = trace s @ map Called cs"
proof -
  from assms(2) obtain cs2 where "trace s' = trace s1 @ map Called cs2" by blast
  then have "trace s' = trace s @ map Called (cs1 @ cs2)" using assms(1) by simp
  then show ?thesis by blast
qed

lemma one_call [simp]: "\<exists>cs. [Called c] = map Called cs"
  by (rule exI[of _ "[c]"]) simp

lemma silent_resolve [simp]: "silent (resolve a)"
  by (rule silentI) (simp add: resolve_def silent_now)

lemma silent_reject [simp]: "silent (reject e)"
  by (rule silentI) (simp add: reject_def silent_now)

lemma silent_const [simp]: "silent (\<lambda>s. (r, s))"
  by (rule silentI) (simp add: silent_now)

lemma silent_await:
  assumes "silent m" and "\<And>a. silent (k a)"
  shows "silent (await m k)"
proof (rule silentI)
  fix s r s'
  assume "await m k s = (r, s')"
  then show "device s' = device s \<and> (\<exists>cs. trace s' = trace s @ map Called cs)"
  proof (cases rule: await_cases)
    case never
    then show ?thesis using silentD[OF assms(1)] by blast
  next
    case (rejected e)
    then show ?thesis using silentD[OF assms(1)] by blast
  next
    case (resolved a s1)
    from silentD[OF assms(1) resolved(1)] obtain cs1 where
      1: "device s1 = device s" "trace s1 = trace s @ map Called cs1" by blast
    from silentD[OF assms(2) resolved(2)] have
      2: "device s' = device s1" "\<exists>cs. trace s' = trace s1 @ map Called cs" by blast+
    show ?thesis using 1(1) 2(1) silent_then[OF 1(2) 2(2)] by simp
  qed
qed

lemma silent_ble_perform [simp]: "silent (ble_perform ble c)"
  by (rule silentI) (auto simp: ble_perform_def silent_call split: option.splits)

lemma silent_ble_fire [simp]: "silent (ble_fire c)"
  by (rule silentI) (auto simp: ble_fire_def silent_call)

lemma silent_ble_isPeripheralConnected [simp]: "silent (ble_isPeripheralConnected ble i)"
  by (rule silentI) (auto simp: ble_isPeripheralConnected_def silent_call split: sum.splits)

lemma silent_ble_read [simp]: "silent (ble_read ble i a b)"
  by (rule silentI) (auto simp: ble_read_def silent_call split: sum.splits)

lemma silent_ble_requestMTU [simp]: "silent (ble_requestMTU ble i a)"
  by (rule silentI) (auto simp: ble_requestMTU_def silent_call split: sum.splits)

lemma silent_make_chunks [simp]: "silent (make_chunks loop)"
  by (rule silentI) (auto simp: make_chunks_def silent_now split: option.splits)

lemma silent_with_device:
  assumes "silent n" and "\<And>d. silent (f d)"
  shows "silent (\<lambda>s. case device s of None \<Rightarrow> n s | Some d \<Rightarrow> f d s)"
proof (rule silentI)
  fix s r s'
  assume a: "(case device s of None \<Rightarrow> n s | Some d \<Rightarrow> f d s) = (r, s')"
  show "device s' = device s \<and> (\<exists>cs. trace s' = trace s @ map Called cs)"
  proof (cases "device s")
    case None
    then have "n s = (r, s')" using a by simp
    then show ?thesis using silentD[OF assms(1)] by blast
  next
    case (Some d)
    then have "f d s = (r, s')" using a by simp
    then show ?thesis using silentD[OF assms(2)] by blast
  qed
qed

lemma silent_isConnected [simp]: "silent (isConnected ble)"
  unfolding isConnected_def by (rule silent_with_device) simp_all

lemma silent_writeChar [simp]: "silent (writeChar ble c bytes sz)"
  unfolding writeChar_def by (rule silent_with_device) (simp_all add: silent_await)

lemma silent_readChar [simp]: "silent (readChar ble c)"
  unfolding readChar_def by (rule silent_with_device) (simp_all add: silent_await)

lemma silent_update_callbacks [simp]: "silent (\<lambda>s. (r, s\<lparr>callbacks := f s\<rparr>))"
  by (rule silentI) (simp add: silent_now)

lemma silent_subscribe [simp]: "silent (BleManagerSensor_subscribe ble i a b cb)"
  unfolding BleManagerSensor_subscribe_def by (rule silent_await) simp_all

lemma silent_unsubscribe [simp]: "silent (BleManagerSensor_unsubscribe ble i)"
proof (rule silentI)
  fix s r s'
  assume a: "BleManagerSensor_unsubscribe ble i s = (r, s')"
  have stop: "silent (await (ble_perform ble c)
      (\<lambda>_ s'. (Some (Inr ()), s'\<lparr>callbacks := table_delete (callbacks s') i\<rparr>)))"
    for c :: ble_call
    by (rule silent_await) simp_all
  show "device s' = device s \<and> (\<exists>cs. trace s' = trace s @ map Called cs)"
  proof (cases "table_get (callbacks s) i")
    case Undefined
    then show ?thesis using a by (simp add: BleManagerSensor_unsubscribe_def silent_now)
  next
    case (Entry info)
    then show ?thesis using a silentD[OF stop, of _ s r s']
      by (simp add: BleManagerSensor_unsubscribe_def)
  next
    case Inherited
    then show ?thesis using a silentD[OF stop, of _ s r s']
      by (simp add: BleManagerSensor_unsubscribe_def)
  qed
qed

lemma silent_disconnect [simp]: "silent (disconnect ble pf)"
  unfolding disconnect_def by (rule silent_with_device) (simp_all add: silent_await)

lemma silent_connect_steps [simp]: "silent (connect_steps ble d)"
  unfolding connect_steps_def by (simp add: silent_await)

text \<open>The reconnection at the end of \<^verbatim>\<open>flashFirmware\<close>, to the device of the facade.\<close>

lemma silent_reconnect [simp]: "silent (\<lambda>s. connect ble pf (device s) s)"
proof (rule silentI)
  fix s r s'
  assume a: "connect ble pf (device s) s = (r, s')"
  show "device s' = device s \<and> (\<exists>cs. trace s' = trace s @ map Called cs)"
  proof (cases "device s")
    case None
    then show ?thesis using a by (simp add: connect_def silent_now)
  next
    case (Some d)
    define s0 where "s0 = s\<lparr>device := Some d, notificationData := \<lparr>axisX = 0, axisY = 0, axisZ = 0\<rparr>\<rparr>"
    have 0: "trace s0 = trace s" "device s0 = device s" using Some by (simp_all add: s0_def)
    obtain r1 s1 where st: "connect_steps ble d s0 = (r1, s1)" by (cases "connect_steps ble d s0")
    from silentD[OF silent_connect_steps st] obtain cs1 where
      1: "device s1 = device s" "trace s1 = trace s @ map Called cs1" using 0 by auto
    show ?thesis
    proof (cases "\<exists>err. r1 = Some (Inl err)")
      case False
      then have "s' = s1" using a Some st
        by (auto simp: connect_def s0_def split: option.splits sum.splits)
      then show ?thesis using 1 by blast
    next
      case True
      obtain r2 s2 where d: "disconnect ble pf s1 = (r2, s2)" by (cases "disconnect ble pf s1")
      have "s' = s2" using a Some st True d by (auto simp: connect_def s0_def)
      moreover from silentD[OF silent_disconnect d] have
        "device s2 = device s1" "\<exists>cs. trace s2 = trace s1 @ map Called cs" by blast+
      ultimately show ?thesis using 1(1) silent_then[OF 1(2)] by simp
    qed
  qed
qed

section \<open>The trace of a transfer\<close>




section \<open>The shape of a transfer\<close>

lemma transfer_trace_stop:
  assumes "t' = t @ map Called cs" and "\<forall>a. r \<noteq> Some (Inr a)"
  shows "transfer_trace ble fw onProgress d t r t'"
  using assms unfolding transfer_trace_def by blast


lemma streamsI:
  "(\<And>s r s'. device s = Some d \<Longrightarrow> m s = (r, s') \<Longrightarrow>
       transfer_trace ble fw onProgress d (trace s) r (trace s')) \<Longrightarrow>
   streams ble fw onProgress d m"
  by (simp add: streams_def)


lemma streams_reject [simp]: "streams ble fw onProgress d (reject e)"
  by (rule streamsI) (auto simp: reject_def intro: transfer_trace_stop[where cs = "[]"])





section \<open>A transfer on which every call succeeds\<close>

lemma isConnected_ok:
  "device s = Some d \<Longrightarrow>
   isConnected (ble_ok m b) s =
     (Some (Inr True), s\<lparr>trace := trace s @ [Called (IsPeripheralConnected (dev_id d))]\<rparr>)"
  by (simp add: isConnected_def ble_isPeripheralConnected_def ble_ok_def record_event_def)

lemma writeChar_ok:
  "device s = Some d \<Longrightarrow>
   writeChar (ble_ok m b) c bytes sz s =
     (Some (Inr ()), s\<lparr>trace := trace s @
        [Called (IsPeripheralConnected (dev_id d)),
         Called (Write (dev_id d) KIIROO_CONTROL_SERVICE_UUID c bytes sz)]\<rparr>)"
  by (simp add: writeChar_def await_def isConnected_ok ble_perform_def)
     (simp add: ble_ok_def record_event_def)

lemma readChar_ok:
  "device s = Some d \<Longrightarrow>
   readChar (ble_ok m b) c s =
     (Some (Inr b), s\<lparr>trace := trace s @
        [Called (IsPeripheralConnected (dev_id d)),
         Called (Read (dev_id d) KIIROO_CONTROL_SERVICE_UUID c)]\<rparr>)"
  by (simp add: readChar_def await_def isConnected_ok ble_read_def)
     (simp add: ble_ok_def record_event_def)

lemma send_chunks_ok:
  "device s = Some d \<Longrightarrow>
   send_chunks (ble_ok m b) onProgress n i cs s =
     (Some (Inr ()), s\<lparr>trace := trace s @ stream_events (dev_id d) onProgress n i cs\<rparr>)"
proof (induction cs arbitrary: i s onProgress)
  case Nil
  then show ?case by (simp add: resolve_def)
next
  case (Cons chunk rest)
  show ?case
    using Cons.prems
    by (simp add: await_def writeChar_ok report_def record_event_def Cons.IH chunk_events_def
        chunk_write_def)
qed

lemma flashFirmware_ok_android:
  fixes s :: "'l world"
  assumes "device s = Some d" and "OS pf \<noteq> ''ios''"
    and "chunks_of_firmware fw (m - 3) = Some chunks"
  shows "flashFirmware (ble_ok m b :: ('e, 'l) BleManager) pf fw onProgress s =
     (Some (Inr ()), s\<lparr>trace := trace s @
       [Called (IsPeripheralConnected (dev_id d)),
        Called (RequestMTU (dev_id d)
                  (if version_at_least_34 pf then DESIRED_MTU_SIZE_V_14 else DESIRED_MTU_SIZE)),
        Called (IsPeripheralConnected (dev_id d)),
        Called (Write (dev_id d) KIIROO_CONTROL_SERVICE_UUID OTA_DATA_UUID
                  [m - 3, if version_at_least_34 pf then 1 else 0] None),
        Called (IsPeripheralConnected (dev_id d)),
        Called (Write (dev_id d) KIIROO_CONTROL_SERVICE_UUID OTA_CONTROL_UUID [1] None),
        Called (IsPeripheralConnected (dev_id d)),
        Called (Read (dev_id d) KIIROO_CONTROL_SERVICE_UUID OTA_CONTROL_UUID)]
       @ stream_events (dev_id d) onProgress (length chunks) 0 chunks
       @ [Called (WriteWithoutResponse (dev_id d) KIIROO_CONTROL_SERVICE_UUID
                    OTA_CONTROL_UUID [4] (Some 1)),
          Called (IsPeripheralConnected (dev_id d))]\<rparr>)"
proof -
  have mtu: "ble_requestMTU (ble_ok m b) i w s' =
      (Some (Inr m), s'\<lparr>trace := trace s' @ [Called (RequestMTU i w)]\<rparr>)" for i w and s' :: "'l world"
    by (simp add: ble_requestMTU_def ble_ok_def record_event_def)
  have fin: "ble_perform (ble_ok m b) c s' = (Some (Inr ()), s'\<lparr>trace := trace s' @ [Called c]\<rparr>)"
    for c and s' :: "'l world"
    by (simp add: ble_perform_def ble_ok_def record_event_def)
  show ?thesis
    using assms(1,2)
    by (simp add: flashFirmware_def await_def isConnected_ok writeChar_ok readChar_ok
        send_chunks_ok make_chunks_def assms(3) mtu fin resolve_def Let_def)
qed

lemma flashFirmware_ok_ios:
  fixes s :: "'l world"
  assumes "device s = Some d" and "OS pf = ''ios''"
    and "chunks_of_firmware fw (IOS_MTU_SIZE - 3) = Some chunks"
  shows "flashFirmware (ble_ok m b :: ('e, 'l) BleManager) pf fw onProgress s =
     (Some (Inr ()), s\<lparr>trace := trace s @
       [Called (IsPeripheralConnected (dev_id d)),
        Called (IsPeripheralConnected (dev_id d)),
        Called (Write (dev_id d) KIIROO_CONTROL_SERVICE_UUID OTA_DATA_UUID
                  [IOS_MTU_SIZE - 3, if version_at_least_34 pf then 1 else 0] None),
        Called (IsPeripheralConnected (dev_id d)),
        Called (Write (dev_id d) KIIROO_CONTROL_SERVICE_UUID OTA_CONTROL_UUID [1] None),
        Called (IsPeripheralConnected (dev_id d)),
        Called (Read (dev_id d) KIIROO_CONTROL_SERVICE_UUID OTA_CONTROL_UUID)]
       @ stream_events (dev_id d) onProgress (length chunks) 0 chunks
       @ [Called (IsPeripheralConnected (dev_id d)),
          Called (Write (dev_id d) KIIROO_CONTROL_SERVICE_UUID OTA_CONTROL_UUID [4] (Some 1)),
          Called (IsPeripheralConnected (dev_id d))]\<rparr>)"
  using assms(1,2)
  by (simp add: flashFirmware_def await_def isConnected_ok writeChar_ok readChar_ok
      send_chunks_ok make_chunks_def assms(3) resolve_def Let_def)




lemma connected_world_simps [simp]:
  "device (connected_world d) = Some d"
  "reported (trace (connected_world d)) = []"
  "acceleration (connected_world d) = 0"
  "notificationData (connected_world d) = \<lparr>axisX = 0, axisY = 0, axisZ = 0\<rparr>"
  by (simp_all add: connected_world_def)

section \<open>The trace of a transfer of the React SDK\<close>



section \<open>The chunks of an image\<close>

text \<open>
  C1. For an image of length \<open>L > 0\<close> and a packet size \<open>P \<ge> 1\<close>, the chunking loop of
  the React \<^verbatim>\<open>flashFirmware\<close>, and that of the React Native \<^verbatim>\<open>flashFirmware\<close> when the
  image is an array of numbers, return, with exactly \<open>\<lceil>L / P\<rceil>\<close> chunks; every chunk but
  the last has length \<open>P\<close>, the last has length \<open>L - P * (count - 1)\<close>; the chunk of
  index \<open>k\<close> is the part of the image that starts at offset \<open>k * P\<close>, and the chunks
  concatenated in order are the image. When the image is an \<^verbatim>\<open>ArrayBuffer\<close>, which is what
  the README of the React Native package passes, the loop of the React Native
  \<^verbatim>\<open>flashFirmware\<close> makes no chunk at all, because \<^verbatim>\<open>firmware.length\<close> is \<^verbatim>\<open>undefined\<close>.
\<close>

theorem chunking_partitions_image:
  assumes "0 < length firmware" and "1 \<le> packetSize"
  shows "\<exists>chunks. chunks_of_buffer firmware packetSize = Some chunks
           \<and> chunks_of_firmware (NumberArray firmware) packetSize = Some chunks
           \<and> int (length chunks) = \<lceil>(of_nat (length firmware) :: rat) / of_int packetSize\<rceil>
           \<and> (\<forall>k. Suc k < length chunks \<longrightarrow> int (length (chunks ! k)) = packetSize)
           \<and> int (length (last chunks)) =
               int (length firmware) - packetSize * (int (length chunks) - 1)
           \<and> (\<forall>k < length chunks.
                 chunks ! k = take (nat packetSize) (drop (k * nat packetSize) firmware))
           \<and> concat chunks = firmware
           \<and> chunks_of_firmware (ArrayBuffer firmware) packetSize = Some []"
proof -
  define chunks where "chunks = map (nth_chunk firmware (nat packetSize))
                                  [0..<chunk_count (length firmware) (nat packetSize)]"
  have p: "0 < packetSize" using assms(2) by simp
  note P = chunks_partition[OF assms, folded chunks_def]
  have "chunks_of_buffer firmware packetSize = Some chunks"
    and "chunks_of_firmware (NumberArray firmware) packetSize = Some chunks"
    unfolding chunks_def by (rule chunks_of_buffer_positive[OF p], rule chunks_of_array_positive[OF p])
  then show ?thesis using P chunks_of_ArrayBuffer[of firmware packetSize] by blast
qed

theorem chunking_partitions_image_witness:
  "0 < length [1, 2, 3, 4, 5 :: int] \<and> (1 :: int) \<le> 2
   \<and> (\<exists>chunks. chunks_of_buffer [1, 2, 3, 4, 5] 2 = Some chunks
         \<and> chunks_of_firmware (NumberArray [1, 2, 3, 4, 5]) 2 = Some chunks
         \<and> int (length chunks) = \<lceil>(of_nat (length [1, 2, 3, 4, 5 :: int]) :: rat) / of_int 2\<rceil>
         \<and> (\<forall>k. Suc k < length chunks \<longrightarrow> int (length (chunks ! k)) = 2)
         \<and> int (length (last chunks)) =
             int (length [1, 2, 3, 4, 5 :: int]) - 2 * (int (length chunks) - 1)
         \<and> (\<forall>k < length chunks.
               chunks ! k = take (nat 2) (drop (k * nat 2) [1, 2, 3, 4, 5 :: int]))
         \<and> concat chunks = [1, 2, 3, 4, 5 :: int]
         \<and> chunks_of_firmware (ArrayBuffer [1, 2, 3, 4, 5]) 2 = Some [])
   \<and> flashFirmware (ble_ok 253 [] :: (unit, unit) BleManager) android_13
        (ArrayBuffer [1, 2, 3, 4, 5]) True (connected_world example_device) =
      (Some (Inr ()), (connected_world example_device)\<lparr>trace :=
         trace (connected_world example_device) @
           [Called (IsPeripheralConnected ''id''),
            Called (RequestMTU ''id'' 252),
            Called (IsPeripheralConnected ''id''),
            Called (Write ''id'' ''1400'' ''1701'' [250, 0] None),
            Called (IsPeripheralConnected ''id''),
            Called (Write ''id'' ''1400'' ''1702'' [1] None),
            Called (IsPeripheralConnected ''id''),
            Called (Read ''id'' ''1400'' ''1702''),
            Called (WriteWithoutResponse ''id'' ''1400'' ''1702'' [4] (Some 1)),
            Called (IsPeripheralConnected ''id'')]\<rparr>)"
proof -
  have h1: "0 < length [1, 2, 3, 4, 5 :: int]" by simp
  have h2: "(1 :: int) \<le> 2" by simp
  have run: "flashFirmware (ble_ok 253 [] :: (unit, unit) BleManager) android_13
        (ArrayBuffer [1, 2, 3, 4, 5]) True (connected_world example_device) =
      (Some (Inr ()), (connected_world example_device)\<lparr>trace :=
         trace (connected_world example_device) @
           [Called (IsPeripheralConnected ''id''),
            Called (RequestMTU ''id'' 252),
            Called (IsPeripheralConnected ''id''),
            Called (Write ''id'' ''1400'' ''1701'' [250, 0] None),
            Called (IsPeripheralConnected ''id''),
            Called (Write ''id'' ''1400'' ''1702'' [1] None),
            Called (IsPeripheralConnected ''id''),
            Called (Read ''id'' ''1400'' ''1702''),
            Called (WriteWithoutResponse ''id'' ''1400'' ''1702'' [4] (Some 1)),
            Called (IsPeripheralConnected ''id'')]\<rparr>)"
    using flashFirmware_ok_android[of "connected_world example_device :: unit world"
        example_device android_13 "ArrayBuffer [1, 2, 3, 4, 5]" 253 "[]" "[]" True,
        where ?'e = unit]
    by (simp add: chunks_of_ArrayBuffer android_13_def example_device_def
        version_at_least_34_def DESIRED_MTU_SIZE_def KIIROO_CONTROL_SERVICE_UUID_def
        OTA_DATA_UUID_def OTA_CONTROL_UUID_def)
  show ?thesis using h1 h2 chunking_partitions_image[OF h1 h2] run by blast
qed

section \<open>Progress during a transfer\<close>

lemma reported_web_setup [simp]: "web_reported web_setup = []"
  by (simp add: web_setup_def)













section \<open>Packet size and readiness checks of flashFirmware\<close>

lemma chunk_loop_never_returns:
  assumes "chunk_loop fw len packetSize i acc = Some y"
  shows "\<not> (packetSize \<le> 0 \<and> js_less i len)"
proof (rule chunk_loop.raw_induct[where P = "\<lambda>fw len p i acc y. \<not> (p \<le> 0 \<and> js_less i len)",
      OF _ assms])
  fix loop :: "'a list \<Rightarrow> int option \<Rightarrow> int \<Rightarrow> int \<Rightarrow> 'a list list \<Rightarrow> 'a list list option"
  fix firmware len p i chunks y
  assume IH: "\<And>fw len p i acc y. loop fw len p i acc = Some y \<Longrightarrow> \<not> (p \<le> 0 \<and> js_less i len)"
    and step: "(if js_less i len
                then loop firmware len p (i + p) (chunks @ [js_slice firmware i (i + p)])
                else Some chunks) = Some y"
  show "\<not> (p \<le> 0 \<and> js_less i len)"
  proof
    assume a: "p \<le> 0 \<and> js_less i len"
    then have "loop firmware len p (i + p) (chunks @ [js_slice firmware i (i + p)]) = Some y"
      using step by simp
    then have "\<not> (p \<le> 0 \<and> js_less (i + p) len)" by (rule IH)
    then show False using a by (cases len) simp_all
  qed
qed

lemma chunks_of_array_diverges:
  "packetSize \<le> 0 \<Longrightarrow> bytes \<noteq> [] \<Longrightarrow> chunks_of_firmware (NumberArray bytes) packetSize = None"
  using chunk_loop_never_returns[of bytes "Some (int (length bytes))" packetSize 0 "[]"]
  by (cases "chunk_loop bytes (Some (int (length bytes))) packetSize 0 []")
     (auto simp: chunks_of_firmware_def)

lemma flashFirmware_no_device:
  "device s = None \<Longrightarrow>
   flashFirmware ble pf fw onProgress s = (Some (Inl (Rejected deviceNotInitMsg)), s)"
  by (simp add: flashFirmware_def)

lemma flashFirmware_not_connected:
  assumes "device s = Some d" and "isPeripheralConnected ble (trace s) (dev_id d) = Inr False"
  shows "flashFirmware ble pf fw onProgress s =
     (Some (Inl (Rejected deviceNotInitMsg)),
           s\<lparr>trace := trace s @ [Called (IsPeripheralConnected (dev_id d))]\<rparr>)"
  using assms
  by (simp add: flashFirmware_def await_def isConnected_def ble_isPeripheralConnected_def
      record_event_def reject_def)

lemma flashFirmware_small_mtu_diverges:
  assumes "device s = Some d" and "OS pf \<noteq> ''ios''"
    and "isPeripheralConnected ble (trace s) (dev_id d) = Inr True"
    and "requestMTU ble (trace s @ [Called (IsPeripheralConnected (dev_id d))]) (dev_id d)
           (if version_at_least_34 pf then DESIRED_MTU_SIZE_V_14 else DESIRED_MTU_SIZE) = Inr m"
    and "m \<le> 3" and "bytes \<noteq> []"
  shows "flashFirmware ble pf (NumberArray bytes) onProgress s =
        (None, s\<lparr>trace := trace s @
          [Called (IsPeripheralConnected (dev_id d)),
           Called (RequestMTU (dev_id d)
                     (if version_at_least_34 pf then DESIRED_MTU_SIZE_V_14
                      else DESIRED_MTU_SIZE))]\<rparr>)"
proof -
  have "chunks_of_firmware (NumberArray bytes) (m - 3) = None"
    using assms(5,6) by (intro chunks_of_array_diverges) simp_all
  then show ?thesis
    using assms(1-4)
    by (simp add: flashFirmware_def await_def isConnected_def ble_isPeripheralConnected_def
        ble_requestMTU_def record_event_def make_chunks_def Let_def)
qed

section \<open>The packet size\<close>

text \<open>
  A connected facade on Android, a library that grants an MTU of 3 and an image of one
  byte: the call never settles, having asked for the connection state and the MTU.
\<close>

theorem small_mtu_counterexample:
  "flashFirmware (ble_ok 3 [] :: (unit, unit) BleManager) android_13 (NumberArray [1]) False
     (connected_world example_device) =
   (None, (connected_world example_device)\<lparr>trace := trace (connected_world example_device) @
      [Called (IsPeripheralConnected ''id''), Called (RequestMTU ''id'' 252)]\<rparr>)"
  using flashFirmware_small_mtu_diverges[where s = "connected_world example_device :: unit world"
      and d = example_device and m = 3 and pf = android_13 and bytes = "[1]" and onProgress = False
      and ble = "ble_ok 3 [] :: (unit, unit) BleManager"]
  by (simp add: android_13_def ble_ok_def example_device_def version_at_least_34_def
      DESIRED_MTU_SIZE_def)

text \<open>
  C4, as the code has it. The packet size that the React Native \<^verbatim>\<open>flashFirmware\<close> chunks
  with and announces in the header is the negotiated MTU minus 3 (on iOS the constant
  185 minus 3), and nothing checks it. With an MTU above 3 every chunk of an array of
  bytes is the slice of that size at its offset. With an MTU of 3 or less no error is
  raised: on a non-empty array the chunking loop never ends, so the call never
  settles, and the only calls it has made are the connection query and the MTU
  request, no write; on an empty array the transfer runs with the non-positive packet
  size in its header.
\<close>

theorem packet_size_is_mtu_minus_3:
  fixes s :: "'l world" and ble :: "('e, 'l) BleManager"
  shows
  "(device s = Some d \<and> OS pf \<noteq> ''ios'' \<and> 3 < m \<longrightarrow>
      flashFirmware (ble_ok m b :: ('e, 'l) BleManager) pf (NumberArray bytes) onProgress s =
        (Some (Inr ()), s\<lparr>trace := trace s @
          [Called (IsPeripheralConnected (dev_id d)),
           Called (RequestMTU (dev_id d)
                     (if version_at_least_34 pf then DESIRED_MTU_SIZE_V_14 else DESIRED_MTU_SIZE)),
           Called (IsPeripheralConnected (dev_id d)),
           Called (Write (dev_id d) KIIROO_CONTROL_SERVICE_UUID OTA_DATA_UUID
                     [m - 3, if version_at_least_34 pf then 1 else 0] None),
           Called (IsPeripheralConnected (dev_id d)),
           Called (Write (dev_id d) KIIROO_CONTROL_SERVICE_UUID OTA_CONTROL_UUID [1] None),
           Called (IsPeripheralConnected (dev_id d)),
           Called (Read (dev_id d) KIIROO_CONTROL_SERVICE_UUID OTA_CONTROL_UUID)]
          @ stream_events (dev_id d) onProgress (chunk_count (length bytes) (nat (m - 3))) 0
              (map (\<lambda>k. take (nat (m - 3)) (drop (k * nat (m - 3)) bytes))
                 [0..<chunk_count (length bytes) (nat (m - 3))])
          @ [Called (WriteWithoutResponse (dev_id d) KIIROO_CONTROL_SERVICE_UUID
                       OTA_CONTROL_UUID [4] (Some 1)),
             Called (IsPeripheralConnected (dev_id d))]\<rparr>))
   \<and> (device s = Some d \<and> OS pf = ''ios'' \<longrightarrow>
      flashFirmware (ble_ok m b :: ('e, 'l) BleManager) pf (NumberArray bytes) onProgress s =
        (Some (Inr ()), s\<lparr>trace := trace s @
          [Called (IsPeripheralConnected (dev_id d)),
           Called (IsPeripheralConnected (dev_id d)),
           Called (Write (dev_id d) KIIROO_CONTROL_SERVICE_UUID OTA_DATA_UUID
                     [IOS_MTU_SIZE - 3, if version_at_least_34 pf then 1 else 0] None),
           Called (IsPeripheralConnected (dev_id d)),
           Called (Write (dev_id d) KIIROO_CONTROL_SERVICE_UUID OTA_CONTROL_UUID [1] None),
           Called (IsPeripheralConnected (dev_id d)),
           Called (Read (dev_id d) KIIROO_CONTROL_SERVICE_UUID OTA_CONTROL_UUID)]
          @ stream_events (dev_id d) onProgress (chunk_count (length bytes) (nat (IOS_MTU_SIZE - 3))) 0
              (map (\<lambda>k. take (nat (IOS_MTU_SIZE - 3)) (drop (k * nat (IOS_MTU_SIZE - 3)) bytes))
                 [0..<chunk_count (length bytes) (nat (IOS_MTU_SIZE - 3))])
          @ [Called (IsPeripheralConnected (dev_id d)),
             Called (Write (dev_id d) KIIROO_CONTROL_SERVICE_UUID OTA_CONTROL_UUID [4] (Some 1)),
             Called (IsPeripheralConnected (dev_id d))]\<rparr>))
   \<and> (device s = Some d \<and> OS pf \<noteq> ''ios''
        \<and> isPeripheralConnected ble (trace s) (dev_id d) = Inr True
        \<and> requestMTU ble (trace s @ [Called (IsPeripheralConnected (dev_id d))]) (dev_id d)
             (if version_at_least_34 pf then DESIRED_MTU_SIZE_V_14 else DESIRED_MTU_SIZE) = Inr m
        \<and> m \<le> 3 \<and> bytes \<noteq> [] \<longrightarrow>
      flashFirmware ble pf (NumberArray bytes) onProgress s =
        (None, s\<lparr>trace := trace s @
          [Called (IsPeripheralConnected (dev_id d)),
           Called (RequestMTU (dev_id d)
                     (if version_at_least_34 pf then DESIRED_MTU_SIZE_V_14
                      else DESIRED_MTU_SIZE))]\<rparr>))
   \<and> (device s = Some d \<and> OS pf \<noteq> ''ios'' \<and> m \<le> 3 \<longrightarrow>
      flashFirmware (ble_ok m b :: ('e, 'l) BleManager) pf (NumberArray []) onProgress s =
        (Some (Inr ()), s\<lparr>trace := trace s @
          [Called (IsPeripheralConnected (dev_id d)),
           Called (RequestMTU (dev_id d)
                     (if version_at_least_34 pf then DESIRED_MTU_SIZE_V_14 else DESIRED_MTU_SIZE)),
           Called (IsPeripheralConnected (dev_id d)),
           Called (Write (dev_id d) KIIROO_CONTROL_SERVICE_UUID OTA_DATA_UUID
                     [m - 3, if version_at_least_34 pf then 1 else 0] None),
           Called (IsPeripheralConnected (dev_id d)),
           Called (Write (dev_id d) KIIROO_CONTROL_SERVICE_UUID OTA_CONTROL_UUID [1] None),
           Called (IsPeripheralConnected (dev_id d)),
           Called (Read (dev_id d) KIIROO_CONTROL_SERVICE_UUID OTA_CONTROL_UUID),
           Called (WriteWithoutResponse (dev_id d) KIIROO_CONTROL_SERVICE_UUID
                     OTA_CONTROL_UUID [4] (Some 1)),
           Called (IsPeripheralConnected (dev_id d))]\<rparr>))"
proof (intro conjI impI)
  assume a: "device s = Some d \<and> OS pf \<noteq> ''ios'' \<and> 3 < m"
  then have ch: "chunks_of_firmware (NumberArray bytes) (m - 3) =
      Some (map (nth_chunk bytes (nat (m - 3))) [0..<chunk_count (length bytes) (nat (m - 3))])"
    by (intro chunks_of_array_positive) simp
  show "flashFirmware (ble_ok m b :: ('e, 'l) BleManager) pf (NumberArray bytes) onProgress s =
        (Some (Inr ()), s\<lparr>trace := trace s @
          [Called (IsPeripheralConnected (dev_id d)),
           Called (RequestMTU (dev_id d)
                     (if version_at_least_34 pf then DESIRED_MTU_SIZE_V_14 else DESIRED_MTU_SIZE)),
           Called (IsPeripheralConnected (dev_id d)),
           Called (Write (dev_id d) KIIROO_CONTROL_SERVICE_UUID OTA_DATA_UUID
                     [m - 3, if version_at_least_34 pf then 1 else 0] None),
           Called (IsPeripheralConnected (dev_id d)),
           Called (Write (dev_id d) KIIROO_CONTROL_SERVICE_UUID OTA_CONTROL_UUID [1] None),
           Called (IsPeripheralConnected (dev_id d)),
           Called (Read (dev_id d) KIIROO_CONTROL_SERVICE_UUID OTA_CONTROL_UUID)]
          @ stream_events (dev_id d) onProgress (chunk_count (length bytes) (nat (m - 3))) 0
              (map (\<lambda>k. take (nat (m - 3)) (drop (k * nat (m - 3)) bytes))
                 [0..<chunk_count (length bytes) (nat (m - 3))])
          @ [Called (WriteWithoutResponse (dev_id d) KIIROO_CONTROL_SERVICE_UUID
                       OTA_CONTROL_UUID [4] (Some 1)),
             Called (IsPeripheralConnected (dev_id d))]\<rparr>)"
    using a flashFirmware_ok_android[of s d pf "NumberArray bytes" m _ b onProgress,
        where ?'e = 'e, OF _ _ ch]
    by (simp add: nth_chunk_def[abs_def])
next
  assume a: "device s = Some d \<and> OS pf = ''ios''"
  have ch: "chunks_of_firmware (NumberArray bytes) (IOS_MTU_SIZE - 3) =
      Some (map (nth_chunk bytes (nat (IOS_MTU_SIZE - 3)))
              [0..<chunk_count (length bytes) (nat (IOS_MTU_SIZE - 3))])"
    by (intro chunks_of_array_positive) (simp add: IOS_MTU_SIZE_def)
  show "flashFirmware (ble_ok m b :: ('e, 'l) BleManager) pf (NumberArray bytes) onProgress s =
        (Some (Inr ()), s\<lparr>trace := trace s @
          [Called (IsPeripheralConnected (dev_id d)),
           Called (IsPeripheralConnected (dev_id d)),
           Called (Write (dev_id d) KIIROO_CONTROL_SERVICE_UUID OTA_DATA_UUID
                     [IOS_MTU_SIZE - 3, if version_at_least_34 pf then 1 else 0] None),
           Called (IsPeripheralConnected (dev_id d)),
           Called (Write (dev_id d) KIIROO_CONTROL_SERVICE_UUID OTA_CONTROL_UUID [1] None),
           Called (IsPeripheralConnected (dev_id d)),
           Called (Read (dev_id d) KIIROO_CONTROL_SERVICE_UUID OTA_CONTROL_UUID)]
          @ stream_events (dev_id d) onProgress (chunk_count (length bytes) (nat (IOS_MTU_SIZE - 3))) 0
              (map (\<lambda>k. take (nat (IOS_MTU_SIZE - 3)) (drop (k * nat (IOS_MTU_SIZE - 3)) bytes))
                 [0..<chunk_count (length bytes) (nat (IOS_MTU_SIZE - 3))])
          @ [Called (IsPeripheralConnected (dev_id d)),
             Called (Write (dev_id d) KIIROO_CONTROL_SERVICE_UUID OTA_CONTROL_UUID [4] (Some 1)),
             Called (IsPeripheralConnected (dev_id d))]\<rparr>)"
    using a flashFirmware_ok_ios[of s d pf "NumberArray bytes" _ m b onProgress,
        where ?'e = 'e, OF _ _ ch]
    by (simp add: nth_chunk_def[abs_def])
next
  assume "device s = Some d \<and> OS pf \<noteq> ''ios''
        \<and> isPeripheralConnected ble (trace s) (dev_id d) = Inr True
        \<and> requestMTU ble (trace s @ [Called (IsPeripheralConnected (dev_id d))]) (dev_id d)
             (if version_at_least_34 pf then DESIRED_MTU_SIZE_V_14 else DESIRED_MTU_SIZE) = Inr m
        \<and> m \<le> 3 \<and> bytes \<noteq> []"
  then show "flashFirmware ble pf (NumberArray bytes) onProgress s =
        (None, s\<lparr>trace := trace s @
          [Called (IsPeripheralConnected (dev_id d)),
           Called (RequestMTU (dev_id d)
                     (if version_at_least_34 pf then DESIRED_MTU_SIZE_V_14
                      else DESIRED_MTU_SIZE))]\<rparr>)"
    by (intro flashFirmware_small_mtu_diverges[where d = d and m = m]) simp_all
next
  assume a: "device s = Some d \<and> OS pf \<noteq> ''ios'' \<and> m \<le> 3"
  show "flashFirmware (ble_ok m b :: ('e, 'l) BleManager) pf (NumberArray []) onProgress s =
        (Some (Inr ()), s\<lparr>trace := trace s @
          [Called (IsPeripheralConnected (dev_id d)),
           Called (RequestMTU (dev_id d)
                     (if version_at_least_34 pf then DESIRED_MTU_SIZE_V_14 else DESIRED_MTU_SIZE)),
           Called (IsPeripheralConnected (dev_id d)),
           Called (Write (dev_id d) KIIROO_CONTROL_SERVICE_UUID OTA_DATA_UUID
                     [m - 3, if version_at_least_34 pf then 1 else 0] None),
           Called (IsPeripheralConnected (dev_id d)),
           Called (Write (dev_id d) KIIROO_CONTROL_SERVICE_UUID OTA_CONTROL_UUID [1] None),
           Called (IsPeripheralConnected (dev_id d)),
           Called (Read (dev_id d) KIIROO_CONTROL_SERVICE_UUID OTA_CONTROL_UUID),
           Called (WriteWithoutResponse (dev_id d) KIIROO_CONTROL_SERVICE_UUID
                     OTA_CONTROL_UUID [4] (Some 1)),
           Called (IsPeripheralConnected (dev_id d))]\<rparr>)"
    using a flashFirmware_ok_android[of s d pf "NumberArray []" m "[]" b onProgress,
        where ?'e = 'e, OF _ _ chunks_of_array_empty]
    by simp
qed

theorem packet_size_is_mtu_minus_3_witness:
  "device (connected_world example_device :: unit world) = Some example_device
   \<and> OS android_13 \<noteq> ''ios'' \<and> (3 :: int) < 253 \<and> (3 :: int) \<le> 3 \<and> [1 :: int] \<noteq> []
   \<and> isPeripheralConnected (ble_ok 3 [] :: (unit, unit) BleManager)
         (trace (connected_world example_device)) (dev_id example_device) = Inr True
   \<and> requestMTU (ble_ok 3 [] :: (unit, unit) BleManager)
         (trace (connected_world example_device)
            @ [Called (IsPeripheralConnected (dev_id example_device))])
         (dev_id example_device)
         (if version_at_least_34 android_13 then DESIRED_MTU_SIZE_V_14 else DESIRED_MTU_SIZE) = Inr 3
   \<and> flashFirmware (ble_ok 3 [] :: (unit, unit) BleManager) android_13 (NumberArray [1]) False
         (connected_world example_device) =
       (None, (connected_world example_device)\<lparr>trace := trace (connected_world example_device) @
          [Called (IsPeripheralConnected (dev_id example_device)),
           Called (RequestMTU (dev_id example_device) DESIRED_MTU_SIZE)]\<rparr>)
   \<and> (\<exists>s'. flashFirmware (ble_ok 3 [] :: (unit, unit) BleManager) android_13 (NumberArray [])
               False (connected_world example_device) = (Some (Inr ()), s'))
   \<and> (\<exists>s'. flashFirmware (ble_ok 253 [] :: (unit, unit) BleManager) android_13
               (NumberArray [1]) False (connected_world example_device) = (Some (Inr ()), s'))
   \<and> OS \<lparr>OS = ''ios'', versionNumber = Some 17\<rparr> = ''ios''
   \<and> (\<exists>s'. flashFirmware (ble_ok 253 [] :: (unit, unit) BleManager)
               \<lparr>OS = ''ios'', versionNumber = Some 17\<rparr> (NumberArray [1]) False
               (connected_world example_device) = (Some (Inr ()), s'))"
  using
    packet_size_is_mtu_minus_3[where s = "connected_world example_device :: unit world"
      and d = example_device and pf = android_13 and m = 3 and b = "[]" and bytes = "[1]"
      and onProgress = False and ble = "ble_ok 3 [] :: (unit, unit) BleManager"]
    packet_size_is_mtu_minus_3[where s = "connected_world example_device :: unit world"
      and d = example_device and pf = android_13 and m = 253 and b = "[]" and bytes = "[1]"
      and onProgress = False and ble = "ble_ok 3 [] :: (unit, unit) BleManager"]
    packet_size_is_mtu_minus_3[where s = "connected_world example_device :: unit world"
      and d = example_device and pf = "\<lparr>OS = ''ios'', versionNumber = Some 17\<rparr>" and m = 253
      and b = "[]" and bytes = "[1]"
      and onProgress = False and ble = "ble_ok 3 [] :: (unit, unit) BleManager"]
  by (simp add: android_13_def ble_ok_def version_at_least_34_def)

section \<open>flashFirmware on a facade that is not ready\<close>

lemma web_flashFirmware_no_service:
  "controlService ws = None \<Longrightarrow>
   web_flashFirmware wb fw onProgress ws = (Some (Inl (Rejected deviceNotInitMsg)), ws)"
  by (simp add: web_flashFirmware_def web_not_initialized_def)

text \<open>
  On a connected facade, an empty image is not refused: the header, the start command
  and the completion command are written.
\<close>

theorem empty_image_counterexample:
  "flashFirmware (ble_ok 252 [] :: (unit, unit) BleManager) android_13 (NumberArray []) False
     (connected_world example_device) =
   (Some (Inr ()), (connected_world example_device)\<lparr>trace :=
     trace (connected_world example_device) @
       [Called (IsPeripheralConnected ''id''),
        Called (RequestMTU ''id'' 252),
        Called (IsPeripheralConnected ''id''),
        Called (Write ''id'' ''1400'' ''1701'' [249, 0] None),
        Called (IsPeripheralConnected ''id''),
        Called (Write ''id'' ''1400'' ''1702'' [1] None),
        Called (IsPeripheralConnected ''id''),
        Called (Read ''id'' ''1400'' ''1702''),
        Called (WriteWithoutResponse ''id'' ''1400'' ''1702'' [4] (Some 1)),
        Called (IsPeripheralConnected ''id'')]\<rparr>)"
  using flashFirmware_ok_android[of "connected_world example_device :: unit world"
      example_device android_13 "NumberArray []" 252 "[]" "[]" False, where ?'e = unit,
      OF _ _ chunks_of_array_empty]
  by (simp add: android_13_def example_device_def version_at_least_34_def DESIRED_MTU_SIZE_def
      KIIROO_CONTROL_SERVICE_UUID_def OTA_DATA_UUID_def OTA_CONTROL_UUID_def)

text \<open>
  C5, as the code has it. In the React Native facade, when no device is set or the
  library reports the peripheral not connected, \<^verbatim>\<open>flashFirmware\<close> rejects with the
  message "The device should be connected first." and has made no call but the
  connection query; the React facade rejects so when it holds no control service, and
  has made no call. An empty image is not refused: on a connected facade the transfer
  runs with no chunk.
\<close>

theorem flashFirmware_requires_connection:
  fixes s :: "'l world" and ble :: "('e, 'l) BleManager"
  shows
  "(device s = None \<longrightarrow>
      flashFirmware ble pf fw onProgress s = (Some (Inl (Rejected deviceNotInitMsg)), s))
   \<and> (device s = Some d \<and> isPeripheralConnected ble (trace s) (dev_id d) = Inr False \<longrightarrow>
      flashFirmware ble pf fw onProgress s =
        (Some (Inl (Rejected deviceNotInitMsg)),
              s\<lparr>trace := trace s @ [Called (IsPeripheralConnected (dev_id d))]\<rparr>))
   \<and> (controlService ws = None \<longrightarrow>
      web_flashFirmware wb wfw onProgress ws = (Some (Inl (Rejected deviceNotInitMsg)), ws))
   \<and> (device s = Some d \<and> OS pf \<noteq> ''ios'' \<longrightarrow>
      flashFirmware (ble_ok m b :: ('e, 'l) BleManager) pf (NumberArray []) onProgress s =
        (Some (Inr ()), s\<lparr>trace := trace s @
          [Called (IsPeripheralConnected (dev_id d)),
           Called (RequestMTU (dev_id d)
                     (if version_at_least_34 pf then DESIRED_MTU_SIZE_V_14 else DESIRED_MTU_SIZE)),
           Called (IsPeripheralConnected (dev_id d)),
           Called (Write (dev_id d) KIIROO_CONTROL_SERVICE_UUID OTA_DATA_UUID
                     [m - 3, if version_at_least_34 pf then 1 else 0] None),
           Called (IsPeripheralConnected (dev_id d)),
           Called (Write (dev_id d) KIIROO_CONTROL_SERVICE_UUID OTA_CONTROL_UUID [1] None),
           Called (IsPeripheralConnected (dev_id d)),
           Called (Read (dev_id d) KIIROO_CONTROL_SERVICE_UUID OTA_CONTROL_UUID),
           Called (WriteWithoutResponse (dev_id d) KIIROO_CONTROL_SERVICE_UUID
                     OTA_CONTROL_UUID [4] (Some 1)),
           Called (IsPeripheralConnected (dev_id d))]\<rparr>)
    \<and> flashFirmware (ble_ok m b :: ('e, 'l) BleManager) pf (ArrayBuffer []) onProgress s =
        (Some (Inr ()), s\<lparr>trace := trace s @
          [Called (IsPeripheralConnected (dev_id d)),
           Called (RequestMTU (dev_id d)
                     (if version_at_least_34 pf then DESIRED_MTU_SIZE_V_14 else DESIRED_MTU_SIZE)),
           Called (IsPeripheralConnected (dev_id d)),
           Called (Write (dev_id d) KIIROO_CONTROL_SERVICE_UUID OTA_DATA_UUID
                     [m - 3, if version_at_least_34 pf then 1 else 0] None),
           Called (IsPeripheralConnected (dev_id d)),
           Called (Write (dev_id d) KIIROO_CONTROL_SERVICE_UUID OTA_CONTROL_UUID [1] None),
           Called (IsPeripheralConnected (dev_id d)),
           Called (Read (dev_id d) KIIROO_CONTROL_SERVICE_UUID OTA_CONTROL_UUID),
           Called (WriteWithoutResponse (dev_id d) KIIROO_CONTROL_SERVICE_UUID
                     OTA_CONTROL_UUID [4] (Some 1)),
           Called (IsPeripheralConnected (dev_id d))]\<rparr>))"
proof (intro conjI impI)
  assume "device s = None"
  then show "flashFirmware ble pf fw onProgress s = (Some (Inl (Rejected deviceNotInitMsg)), s)"
    by (rule flashFirmware_no_device)
next
  assume "device s = Some d \<and> isPeripheralConnected ble (trace s) (dev_id d) = Inr False"
  then show "flashFirmware ble pf fw onProgress s =
        (Some (Inl (Rejected deviceNotInitMsg)),
              s\<lparr>trace := trace s @ [Called (IsPeripheralConnected (dev_id d))]\<rparr>)"
    by (intro flashFirmware_not_connected) simp_all
next
  assume "controlService ws = None"
  then show "web_flashFirmware wb wfw onProgress ws = (Some (Inl (Rejected deviceNotInitMsg)), ws)"
    by (rule web_flashFirmware_no_service)
next
  assume a: "device s = Some d \<and> OS pf \<noteq> ''ios''"
  show "flashFirmware (ble_ok m b :: ('e, 'l) BleManager) pf (NumberArray []) onProgress s =
        (Some (Inr ()), s\<lparr>trace := trace s @
          [Called (IsPeripheralConnected (dev_id d)),
           Called (RequestMTU (dev_id d)
                     (if version_at_least_34 pf then DESIRED_MTU_SIZE_V_14 else DESIRED_MTU_SIZE)),
           Called (IsPeripheralConnected (dev_id d)),
           Called (Write (dev_id d) KIIROO_CONTROL_SERVICE_UUID OTA_DATA_UUID
                     [m - 3, if version_at_least_34 pf then 1 else 0] None),
           Called (IsPeripheralConnected (dev_id d)),
           Called (Write (dev_id d) KIIROO_CONTROL_SERVICE_UUID OTA_CONTROL_UUID [1] None),
           Called (IsPeripheralConnected (dev_id d)),
           Called (Read (dev_id d) KIIROO_CONTROL_SERVICE_UUID OTA_CONTROL_UUID),
           Called (WriteWithoutResponse (dev_id d) KIIROO_CONTROL_SERVICE_UUID
                     OTA_CONTROL_UUID [4] (Some 1)),
           Called (IsPeripheralConnected (dev_id d))]\<rparr>)"
    using a flashFirmware_ok_android[of s d pf "NumberArray []" m "[]" b onProgress,
        where ?'e = 'e, OF _ _ chunks_of_array_empty]
    by simp
next
  assume a: "device s = Some d \<and> OS pf \<noteq> ''ios''"
  show "flashFirmware (ble_ok m b :: ('e, 'l) BleManager) pf (ArrayBuffer []) onProgress s =
        (Some (Inr ()), s\<lparr>trace := trace s @
          [Called (IsPeripheralConnected (dev_id d)),
           Called (RequestMTU (dev_id d)
                     (if version_at_least_34 pf then DESIRED_MTU_SIZE_V_14 else DESIRED_MTU_SIZE)),
           Called (IsPeripheralConnected (dev_id d)),
           Called (Write (dev_id d) KIIROO_CONTROL_SERVICE_UUID OTA_DATA_UUID
                     [m - 3, if version_at_least_34 pf then 1 else 0] None),
           Called (IsPeripheralConnected (dev_id d)),
           Called (Write (dev_id d) KIIROO_CONTROL_SERVICE_UUID OTA_CONTROL_UUID [1] None),
           Called (IsPeripheralConnected (dev_id d)),
           Called (Read (dev_id d) KIIROO_CONTROL_SERVICE_UUID OTA_CONTROL_UUID),
           Called (WriteWithoutResponse (dev_id d) KIIROO_CONTROL_SERVICE_UUID
                     OTA_CONTROL_UUID [4] (Some 1)),
           Called (IsPeripheralConnected (dev_id d))]\<rparr>)"
    using a flashFirmware_ok_android[of s d pf "ArrayBuffer []" m "[]" b onProgress,
        where ?'e = 'e, OF _ _ chunks_of_ArrayBuffer]
    by simp
qed

theorem flashFirmware_requires_connection_witness:
  "device (new_KiirooControl :: unit world) = None
   \<and> flashFirmware (ble_ok 252 [] :: (unit, unit) BleManager) android_13 (NumberArray [1, 2, 3])
        False new_KiirooControl = (Some (Inl (Rejected deviceNotInitMsg)), new_KiirooControl)
   \<and> device (connected_world example_device :: unit world) = Some example_device
   \<and> isPeripheralConnected
        ((ble_ok 252 [] :: (unit, unit) BleManager)\<lparr>isPeripheralConnected := (\<lambda>t i. Inr False)\<rparr>)
        (trace (connected_world example_device)) (dev_id example_device) = Inr False
   \<and> flashFirmware
        ((ble_ok 252 [] :: (unit, unit) BleManager)\<lparr>isPeripheralConnected := (\<lambda>t i. Inr False)\<rparr>)
        android_13 (NumberArray [1, 2, 3]) False (connected_world example_device) =
      (Some (Inl (Rejected deviceNotInitMsg)),
            (connected_world example_device)\<lparr>trace := trace (connected_world example_device) @
               [Called (IsPeripheralConnected (dev_id example_device))]\<rparr>)
   \<and> controlService (web_connected\<lparr>controlService := None\<rparr>) = None
   \<and> web_flashFirmware (web_dropped ()) [1, 2, 3] False (web_connected\<lparr>controlService := None\<rparr>) =
        (Some (Inl (Rejected deviceNotInitMsg)), web_connected\<lparr>controlService := None\<rparr>)
   \<and> OS android_13 \<noteq> ''ios''
   \<and> (\<exists>s'. flashFirmware (ble_ok 252 [] :: (unit, unit) BleManager) android_13 (NumberArray [])
              False (connected_world example_device) = (Some (Inr ()), s'))
   \<and> (\<exists>s'. flashFirmware (ble_ok 252 [] :: (unit, unit) BleManager) android_13 (ArrayBuffer [])
              False (connected_world example_device) = (Some (Inr ()), s'))"
  using
    flashFirmware_requires_connection[where s = "new_KiirooControl :: unit world"
      and ble = "ble_ok 252 [] :: (unit, unit) BleManager" and pf = android_13
      and fw = "NumberArray [1, 2, 3]" and onProgress = False
      and ws = "web_connected\<lparr>controlService := None\<rparr>" and wb = "web_dropped ()"
      and wfw = "[1, 2, 3]"]
    flashFirmware_requires_connection[where s = "connected_world example_device :: unit world"
      and d = example_device
      and ble = "(ble_ok 252 [] :: (unit, unit) BleManager)\<lparr>isPeripheralConnected := (\<lambda>t i. Inr False)\<rparr>"
      and pf = android_13 and fw = "NumberArray [1, 2, 3]" and onProgress = False and m = 252
      and b = "[]"
      and ws = "web_connected\<lparr>controlService := None\<rparr>" and wb = "web_dropped ()"
      and wfw = "[1, 2, 3]"]
  by (simp add: android_13_def new_KiirooControl_def)

section \<open>The connection guard of the React facade\<close>

text \<open>
  C8 at a React instance that was connected and has lost its link: the guard lets
  \<^verbatim>\<open>flashFirmware\<close> through, and what the caller gets is the rejection of the first
  Web Bluetooth call, not the message "The device should be connected first.".
\<close>

theorem web_flashFirmware_link_lost:
  "\<not> web_isConnected web_link_lost
   \<and> web_flashFirmware (web_dropped ''NetworkError'') [1, 2, 3] False web_link_lost =
       (Some (Inl (Transport ''NetworkError'')),
             web_link_lost\<lparr>web_trace := [GetCharacteristic WEB_OTA_DATA_UUID]\<rparr>)"
proof -
  obtain chunks where "chunks_of_buffer [1, 2, 3] (DEFAULT_MTU_SIZE - 3) = Some chunks"
    using chunks_of_buffer_positive[of "DEFAULT_MTU_SIZE - 3" "[1, 2, 3]"]
    by (simp add: DEFAULT_MTU_SIZE_def)
  then show ?thesis
    by (simp add: web_flashFirmware_def web_not_initialized_def isConnected_method_truthy_def
        web_link_lost_def web_isConnected_def make_chunks_def await_def Let_def
        web_getCharacteristic_def web_dropped_def web_record_def)
qed

theorem web_flashFirmware_link_lost_witness:
  "web_flashFirmware (web_dropped ''NetworkError'') [1, 2, 3] False web_link_lost
     \<noteq> (Some (Inl (Rejected deviceNotInitMsg)), web_link_lost)"
  using web_flashFirmware_link_lost by simp

section \<open>getBattery\<close>

text \<open>
  The React \<^verbatim>\<open>getBattery\<close> on a connected device whose read is rejected: the caller
  gets the value \<open>-1\<close>, not the rejection.
\<close>

theorem web_getBattery_counterexample:
  "web_getBattery (web_read_fails ''NetworkError'') web_connected =
     (Some (Inr (- 1)),
           web_connected\<lparr>web_trace :=
             [GetCharacteristic WEB_BATTERY_LEVEL_UUID, ReadValue WEB_BATTERY_LEVEL_UUID]\<rparr>)"
  by (simp add: web_getBattery_def web_not_initialized_def isConnected_method_truthy_def
      web_connected_def await_def web_getCharacteristic_def web_readValue_def
      web_read_fails_def web_record_def)

text \<open>
  C9, as the code has it. In the React Native facade, \<^verbatim>\<open>getBattery\<close> on a connected
  device hands a rejected characteristic read to its caller. In the React facade,
  \<^verbatim>\<open>getBattery\<close> hands on a rejection of \<^verbatim>\<open>getCharacteristic\<close>, but when \<^verbatim>\<open>readValue\<close>
  is rejected it resolves with \<open>-1\<close>.
\<close>

theorem getBattery_read_failure:
  fixes s :: "'l world" and ble :: "('e, 'l) BleManager" and wb :: "'e WebBluetooth"
  shows
  "(device s = Some d \<and> isPeripheralConnected ble (trace s) (dev_id d) = Inr True
      \<and> read ble (trace s @ [Called (IsPeripheralConnected (dev_id d))]) (dev_id d)
            KIIROO_CONTROL_SERVICE_UUID BATTERY_LEVEL_UUID = Inl e \<longrightarrow>
      getBattery ble s =
        (Some (Inl (Transport e)),
              s\<lparr>trace := trace s @
                 [Called (IsPeripheralConnected (dev_id d)),
                  Called (Read (dev_id d) KIIROO_CONTROL_SERVICE_UUID BATTERY_LEVEL_UUID)]\<rparr>))
   \<and> (controlService ws = Some svc
      \<and> getCharacteristic wb (web_trace ws) WEB_BATTERY_LEVEL_UUID = Some e \<longrightarrow>
      web_getBattery wb ws =
        (Some (Inl (Transport e)),
              ws\<lparr>web_trace := web_trace ws @ [GetCharacteristic WEB_BATTERY_LEVEL_UUID]\<rparr>))
   \<and> (controlService ws = Some svc
      \<and> getCharacteristic wb (web_trace ws) WEB_BATTERY_LEVEL_UUID = None
      \<and> readValue wb (web_trace ws @ [GetCharacteristic WEB_BATTERY_LEVEL_UUID])
            WEB_BATTERY_LEVEL_UUID = Inl e \<longrightarrow>
      web_getBattery wb ws =
        (Some (Inr (- 1)),
              ws\<lparr>web_trace := web_trace ws @
                 [GetCharacteristic WEB_BATTERY_LEVEL_UUID, ReadValue WEB_BATTERY_LEVEL_UUID]\<rparr>))"
  by (simp add: getBattery_def readChar_def await_def isConnected_def
      ble_isPeripheralConnected_def ble_read_def record_event_def
      web_getBattery_def web_not_initialized_def isConnected_method_truthy_def
      web_getCharacteristic_def web_readValue_def web_record_def)

theorem getBattery_read_failure_witness:
  "device (connected_world example_device :: unit world) = Some example_device
   \<and> isPeripheralConnected
        ((ble_ok 252 [] :: (string, unit) BleManager)\<lparr>read := (\<lambda>t i a c. Inl ''GATT error'')\<rparr>)
        (trace (connected_world example_device)) (dev_id example_device) = Inr True
   \<and> getBattery
        ((ble_ok 252 [] :: (string, unit) BleManager)\<lparr>read := (\<lambda>t i a c. Inl ''GATT error'')\<rparr>)
        (connected_world example_device) =
      (Some (Inl (Transport ''GATT error'')),
            (connected_world example_device)\<lparr>trace := trace (connected_world example_device) @
               [Called (IsPeripheralConnected (dev_id example_device)),
                Called (Read (dev_id example_device) KIIROO_CONTROL_SERVICE_UUID
                          BATTERY_LEVEL_UUID)]\<rparr>)
   \<and> controlService web_connected = Some 0x1400
   \<and> web_getBattery (web_dropped ''GATT error'') web_connected =
        (Some (Inl (Transport ''GATT error'')),
              web_connected\<lparr>web_trace := web_trace web_connected @
                 [GetCharacteristic WEB_BATTERY_LEVEL_UUID]\<rparr>)
   \<and> web_getBattery (web_read_fails ''GATT error'') web_connected =
        (Some (Inr (- 1)),
              web_connected\<lparr>web_trace := web_trace web_connected @
                 [GetCharacteristic WEB_BATTERY_LEVEL_UUID, ReadValue WEB_BATTERY_LEVEL_UUID]\<rparr>)"
  using
    getBattery_read_failure[where s = "connected_world example_device :: unit world"
      and d = example_device and e = "''GATT error''"
      and ble = "(ble_ok 252 [] :: (string, unit) BleManager)\<lparr>read := (\<lambda>t i a c. Inl ''GATT error'')\<rparr>"
      and ws = web_connected and svc = "0x1400" and wb = "web_dropped ''GATT error''"]
    getBattery_read_failure[where s = "connected_world example_device :: unit world"
      and d = example_device and e = "''GATT error''"
      and ble = "(ble_ok 252 [] :: (string, unit) BleManager)\<lparr>read := (\<lambda>t i a c. Inl ''GATT error'')\<rparr>"
      and ws = web_connected and svc = "0x1400" and wb = "web_read_fails ''GATT error''"]
  by (simp add: ble_ok_def web_connected_def web_dropped_def web_read_fails_def)

section \<open>The table of notification callbacks\<close>










text \<open>What the axis callback does with a notification whose tag \<^verbatim>\<open>set_fffx\<close> accepts.\<close>

lemma onAxisNotification_step:
  fixes s :: "'l world"
  assumes "data_characteristic data \<noteq> []"
    and "(set_fffx (data_characteristic data) (data_value_0 data) (notificationData s)
           :: 'e thrown + DeviceData) = Inr nd"
  shows "(onAxisNotification msqrt d data :: ('e thrown, 'l world, unit) task) s =
     (Some (Inr ()), s\<lparr>notificationData := nd,
              acceleration := calculateTotalAcceleration msqrt nd,
              trace := trace s @
                (if calculateTotalAcceleration msqrt nd \<noteq> acceleration s
                 then map (\<lambda>l. Delivered l d (min (calculateTotalAcceleration msqrt nd * 20) 100))
                        (ee (sensor s) (getMessageFromDeviceId (dev_id d)))
                 else [])\<rparr>)"
  using assms by (simp add: onAxisNotification_def Let_def emit_def comp_def)

lemma onAxisNotification_unknown:
  fixes s :: "'l world"
  assumes "data_characteristic data \<noteq> []"
    and "(set_fffx (data_characteristic data) (data_value_0 data) (notificationData s)
           :: 'e thrown + DeviceData) = Inl err"
  shows "(onAxisNotification msqrt d data :: ('e thrown, 'l world, unit) task) s =
           (Some (Inl err), s)"
  using assms by (simp add: onAxisNotification_def)

lemma onAxisNotification_no_tag:
  fixes s :: "'l world"
  assumes "data_characteristic data = []"
  shows "(onAxisNotification msqrt d data :: ('e thrown, 'l world, unit) task) s =
     (Some (Inr ()), s\<lparr>acceleration := calculateTotalAcceleration msqrt (notificationData s),
              trace := trace s @
                (if calculateTotalAcceleration msqrt (notificationData s) \<noteq> acceleration s
                 then map (\<lambda>l. Delivered l d
                             (min (calculateTotalAcceleration msqrt (notificationData s) * 20) 100))
                        (ee (sensor s) (getMessageFromDeviceId (dev_id d)))
                 else [])\<rparr>)"
  using assms by (simp add: onAxisNotification_def Let_def emit_def comp_def)


lemma dispatch_registered:
  assumes "table_get (callbacks s) (peripheral args) = Entry info"
    and "callback info = Some (OnAxisNotification d)"
  shows "didUpdateValueForCharacteristic msqrt args s = onAxisNotification msqrt d args s"
  using assms by (simp add: didUpdateValueForCharacteristic_def)






section \<open>Sensor events\<close>

lemma delivered_to_append: "delivered_to l (a @ b) = delivered_to l a @ delivered_to l b"
  by (induction a rule: delivered_to.induct) simp_all

lemma delivered_to_emission:
  "delivered_to l (map (\<lambda>l'. Delivered l' d p) ls) = replicate (count_list ls l) p"
  by (induction ls) simp_all

lemma delivered_to_emissions:
  assumes "count_list ls l = 1"
  shows "delivered_to l (concat (map (\<lambda>p. map (\<lambda>l'. Delivered l' d p) ls) ps)) = ps"
  using assms by (induction ps) (simp_all add: delivered_to_append delivered_to_emission)

lemma calculateTotalAcceleration_le_5: "calculateTotalAcceleration msqrt nd \<le> 5"
  by (simp add: calculateTotalAcceleration_def Let_def)

lemma distinct_adj_chain:
  assumes "distinct_adj xs" and "distinct_adj (last xs # ys)"
  shows "distinct_adj (xs @ ys)"
  using assms by (auto simp: distinct_adj_append_iff distinct_adj_Cons)

lemma percent_inj: "inj_on (\<lambda>m :: int. min (m * 20) 100) {m. m \<le> 5}"
  by (rule inj_onI) (simp add: min_def split: if_splits)

text \<open>
  One notification for a registered device: it delivers at most one value, the magnitude
  then stored, and only when it differs from the magnitude stored before.
\<close>

lemma notification_emits:
  fixes s :: "'l world"
  assumes reg: "table_get (callbacks s) (dev_id d) = Entry info"
      "callback info = Some (OnAxisNotification d)"
    and per: "peripheral args = dev_id d"
    and run: "(didUpdateValueForCharacteristic msqrt args :: ('e thrown, 'l world, unit) task) s
                = (r, s1)"
  shows "\<exists>ms. trace s1 = trace s @
                 concat (map (\<lambda>m. map (\<lambda>l. Delivered l d (min (m * 20) 100))
                                  (ee (sensor s) (getMessageFromDeviceId (dev_id d)))) ms)
              \<and> distinct_adj (acceleration s # ms)
              \<and> acceleration s1 = last (acceleration s # ms)
              \<and> (\<forall>m \<in> set ms. m \<le> 5)
              \<and> callbacks s1 = callbacks s \<and> sensor s1 = sensor s"
proof -
  have on: "(onAxisNotification msqrt d args :: ('e thrown, 'l world, unit) task) s = (r, s1)"
    using reg per run by (simp add: didUpdateValueForCharacteristic_def)
  let ?ls = "ee (sensor s) (getMessageFromDeviceId (dev_id d))"
  have emitted: ?thesis
    if st: "s1 = s\<lparr>notificationData := nd,
              acceleration := calculateTotalAcceleration msqrt nd,
              trace := trace s @
                (if calculateTotalAcceleration msqrt nd \<noteq> acceleration s
                 then map (\<lambda>l. Delivered l d (min (calculateTotalAcceleration msqrt nd * 20) 100)) ?ls
                 else [])\<rparr>" for nd
  proof (cases "calculateTotalAcceleration msqrt nd = acceleration s")
    case True
    then show ?thesis using st by (intro exI[of _ "[]"]) simp
  next
    case False
    then show ?thesis using st calculateTotalAcceleration_le_5[of msqrt nd]
      by (intro exI[of _ "[calculateTotalAcceleration msqrt nd]"]) simp
  qed
  show ?thesis
  proof (cases "data_characteristic args = []")
    case True
    show ?thesis
      using onAxisNotification_no_tag[OF True, of msqrt d s, where ?'e = 'e] on
      by (intro emitted[of "notificationData s"]) simp
  next
    case False
    show ?thesis
    proof (cases "set_fffx (data_characteristic args) (data_value_0 args) (notificationData s)
                    :: 'e thrown + DeviceData")
      case (Inl err)
      then have "s1 = s" using onAxisNotification_unknown[OF False Inl, of msqrt d] on by simp
      then show ?thesis by (intro exI[of _ "[]"]) simp
    next
      case (Inr nd)
      show ?thesis
        using onAxisNotification_step[OF False Inr, of msqrt d] on
        by (intro emitted[of nd]) simp
    qed
  qed
qed

lemma notify_all_emits:
  fixes s :: "'l world"
  assumes "table_get (callbacks s) (dev_id d) = Entry info"
    and "callback info = Some (OnAxisNotification d)"
    and "\<forall>args \<in> set ns. peripheral args = dev_id d"
  shows "\<exists>ms. trace (notify_all msqrt ns s) = trace s @
                 concat (map (\<lambda>m. map (\<lambda>l. Delivered l d (min (m * 20) 100))
                                  (ee (sensor s) (getMessageFromDeviceId (dev_id d)))) ms)
              \<and> distinct_adj (acceleration s # ms)
              \<and> (\<forall>m \<in> set ms. m \<le> 5)"
  using assms
proof (induction ns arbitrary: s)
  case Nil
  show ?case by (intro exI[of _ "[]"]) simp
next
  case (Cons args rest)
  obtain r s1 where run:
    "(didUpdateValueForCharacteristic msqrt args :: (unit thrown, 'l world, unit) task) s
       = (r, s1)"
    by (cases "(didUpdateValueForCharacteristic msqrt args
                 :: (unit thrown, 'l world, unit) task) s") blast
  have per: "peripheral args = dev_id d" using Cons.prems(3) by simp
  obtain ms1 where 1:
    "trace s1 = trace s @
       concat (map (\<lambda>m. map (\<lambda>l. Delivered l d (min (m * 20) 100))
                        (ee (sensor s) (getMessageFromDeviceId (dev_id d)))) ms1)"
    "distinct_adj (acceleration s # ms1)"
    "acceleration s1 = last (acceleration s # ms1)"
    "\<forall>m \<in> set ms1. m \<le> 5"
    "callbacks s1 = callbacks s" "sensor s1 = sensor s"
    using notification_emits[OF Cons.prems(1,2) per run] by blast
  obtain ms2 where 2:
    "trace (notify_all msqrt rest s1) = trace s1 @
       concat (map (\<lambda>m. map (\<lambda>l. Delivered l d (min (m * 20) 100))
                        (ee (sensor s1) (getMessageFromDeviceId (dev_id d)))) ms2)"
    "distinct_adj (acceleration s1 # ms2)"
    "\<forall>m \<in> set ms2. m \<le> 5"
    using Cons.IH[of s1] Cons.prems 1(5) by auto
  have "distinct_adj (last (acceleration s # ms1) # ms2)"
    using 2(2) by (simp only: 1(3))
  then have "distinct_adj ((acceleration s # ms1) @ ms2)"
    by (rule distinct_adj_chain[OF 1(2)])
  then have d: "distinct_adj (acceleration s # ms1 @ ms2)" by simp
  have t: "trace (notify_all msqrt (args # rest) s) = trace s @
       concat (map (\<lambda>m. map (\<lambda>l. Delivered l d (min (m * 20) 100))
                        (ee (sensor s) (getMessageFromDeviceId (dev_id d)))) (ms1 @ ms2))"
    using run 1(1,6) 2(1) by simp
  show ?case using t d 1(4) 2(3) by (intro exI[of _ "ms1 @ ms2"]) auto
qed

lemma set_fffx_Inr_tag:
  "(set_fffx tag v nd :: 'e thrown + DeviceData) = Inr nd' \<Longrightarrow> tag \<noteq> []"
  by (auto simp: set_fffx_def CHAR_X_UUID_def CHAR_Y_UUID_def CHAR_Z_UUID_def split: if_splits)

lemma subscribed_world_simps:
  "callbacks (subscribed_world d l :: 'l world) = callbacks (connected_world d :: 'l world)"
  "trace (subscribed_world d l) = trace (connected_world d)"
  "acceleration (subscribed_world d l) = 0"
  "notificationData (subscribed_world d l) = \<lparr>axisX = 0, axisY = 0, axisZ = 0\<rparr>"
  "ee (sensor (subscribed_world d l)) (getMessageFromDeviceId (dev_id d)) = [l]"
  by (simp_all add: subscribed_world_def connected_world_def subscribe_def)

text \<open>
  On a new facade with one subscriber, the first notification reports the value 0 on
  the X axis: its magnitude is 0, the magnitude already stored, and nothing is delivered.
\<close>

theorem first_value_counterexample:
  "ee (sensor (subscribed_world example_device () :: unit world))
      (getMessageFromDeviceId (dev_id example_device)) = [()]
   \<and> trace (notify_all sqrt
        [\<lparr>peripheral = ''id'', data_characteristic = ''FFF1'', data_value_0 = 0\<rparr>]
        (subscribed_world example_device ())) = trace (subscribed_world example_device ())
   \<and> delivered_to () (trace (notify_all sqrt
        [\<lparr>peripheral = ''id'', data_characteristic = ''FFF1'', data_value_0 = 0\<rparr>]
        (subscribed_world example_device ()))) = []"
proof -
  let ?sw = "subscribed_world example_device () :: unit world"
  let ?x = "\<lparr>peripheral = ''id'', data_characteristic = ''FFF1'', data_value_0 = 0\<rparr>"
  have subs: "ee (sensor ?sw) (getMessageFromDeviceId (dev_id example_device)) = [()]"
    by (simp add: subscribed_world_simps)
  have reg: "table_get (callbacks ?sw) (peripheral ?x) =
      Entry \<lparr>callback = Some (OnAxisNotification example_device),
            service = KIIROO_CONTROL_SERVICE_UUID, characteristic = CHAR_Z_UUID\<rparr>"
    by (simp add: subscribed_world_simps connected_world_def example_device_def
        table_get_def table_set_def)
  have nd: "(set_fffx (data_characteristic ?x) (data_value_0 ?x) (notificationData ?sw)
             :: unit thrown + DeviceData) = Inr \<lparr>axisX = 0, axisY = 0, axisZ = 0\<rparr>"
    by (simp add: subscribed_world_simps set_fffx_def CHAR_X_UUID_def)
  have m: "calculateTotalAcceleration sqrt \<lparr>axisX = 0, axisY = 0, axisZ = 0\<rparr> = 0"
    by (simp add: calculateTotalAcceleration_def Math_round_def)
  have "(didUpdateValueForCharacteristic sqrt ?x :: (unit thrown, unit world, unit) task) ?sw =
          onAxisNotification sqrt example_device ?x ?sw"
    using reg by (simp add: didUpdateValueForCharacteristic_def)
  also have "\<dots> = (Some (Inr ()), ?sw\<lparr>notificationData := \<lparr>axisX = 0, axisY = 0, axisZ = 0\<rparr>,
                acceleration := 0, trace := trace ?sw @ []\<rparr>)"
    using onAxisNotification_step[of ?x ?sw "\<lparr>axisX = 0, axisY = 0, axisZ = 0\<rparr>" sqrt example_device,
        where ?'e = unit] nd
    by (simp add: m subscribed_world_simps)
  finally have tr: "trace (notify_all sqrt [?x] ?sw) = trace ?sw" by simp
  have "delivered_to () (trace ?sw) = []"
    by (simp add: subscribed_world_simps connected_world_def)
  then show ?thesis using subs tr by simp
qed

text \<open>
  C6, as the code has it. For every sequence of notifications of a device whose
  callback is registered, the percent values delivered to the device's subscribers
  are those of a sequence of magnitudes in which no two neighbours are equal and the
  first differs from the magnitude stored before (0 on a new facade); no two
  consecutive percent values are equal, and a listener subscribed once receives
  exactly these values. A notification whose tag is an axis delivers
  \<open>min (magnitude * 20) 100\<close> for the magnitude of the updated sample, to every
  subscriber, if and only if that magnitude differs from the stored one. \<open>emit\<close> for
  a null device delivers nothing.
\<close>

theorem sensor_events_deduplicated:
  fixes s :: "'l world"
  assumes "table_get (callbacks s) (dev_id d) = Entry info"
    and "callback info = Some (OnAxisNotification d)"
  shows
  "((\<forall>args \<in> set ns. peripheral args = dev_id d) \<longrightarrow>
      (\<exists>ms. trace (notify_all msqrt ns s) = trace s @
               concat (map (\<lambda>m. map (\<lambda>l. Delivered l d (min (m * 20) 100))
                                (ee (sensor s) (getMessageFromDeviceId (dev_id d)))) ms)
           \<and> distinct_adj (acceleration s # ms)
           \<and> distinct_adj (map (\<lambda>m. min (m * 20) 100) ms)
           \<and> (\<forall>l. count_list (ee (sensor s) (getMessageFromDeviceId (dev_id d))) l = 1 \<longrightarrow>
                 delivered_to l (trace (notify_all msqrt ns s)) =
                   delivered_to l (trace s) @ map (\<lambda>m. min (m * 20) 100) ms)))
   \<and> (peripheral args = dev_id d
       \<and> (set_fffx (data_characteristic args) (data_value_0 args) (notificationData s)
             :: unit thrown + DeviceData) = Inr nd \<longrightarrow>
      notify_all msqrt [args] s =
        s\<lparr>notificationData := nd,
          acceleration := calculateTotalAcceleration msqrt nd,
          trace := trace s @
            (if calculateTotalAcceleration msqrt nd \<noteq> acceleration s
             then map (\<lambda>l. Delivered l d (min (calculateTotalAcceleration msqrt nd * 20) 100))
                    (ee (sensor s) (getMessageFromDeviceId (dev_id d)))
             else [])\<rparr>)
   \<and> emit bus None percent = []"
proof (intro conjI impI)
  let ?ls = "ee (sensor s) (getMessageFromDeviceId (dev_id d))"
  assume "\<forall>args \<in> set ns. peripheral args = dev_id d"
  then obtain ms where ms:
    "trace (notify_all msqrt ns s) = trace s @
       concat (map (\<lambda>m. map (\<lambda>l. Delivered l d (min (m * 20) 100)) ?ls) ms)"
    "distinct_adj (acceleration s # ms)" "\<forall>m \<in> set ms. m \<le> 5"
    using notify_all_emits[OF assms, of ns msqrt] by blast
  have "distinct_adj ms" using ms(2) by (rule distinct_adj_ConsD)
  moreover have "inj_on (\<lambda>m :: int. min (m * 20) 100) (set ms)"
    using ms(3) by (intro inj_on_subset[OF percent_inj]) auto
  ultimately have pd: "distinct_adj (map (\<lambda>m. min (m * 20) 100) ms)"
    by (rule distinct_adj_mapI)
  have conc: "concat (map (\<lambda>m. map (\<lambda>l. Delivered l d (min (m * 20) 100)) ?ls) ms) =
        concat (map (\<lambda>p. map (\<lambda>l. Delivered l d p) ?ls) (map (\<lambda>m. min (m * 20) 100) ms))"
    by (simp add: comp_def)
  have del: "\<forall>l. count_list ?ls l = 1 \<longrightarrow>
                 delivered_to l (trace (notify_all msqrt ns s)) =
                   delivered_to l (trace s) @ map (\<lambda>m. min (m * 20) 100) ms"
  proof (intro allI impI)
    fix l
    assume c: "count_list ?ls l = 1"
    have "delivered_to l (concat (map (\<lambda>p. map (\<lambda>l. Delivered l d p) ?ls)
             (map (\<lambda>m. min (m * 20) 100) ms))) = map (\<lambda>m. min (m * 20) 100) ms"
      using c by (rule delivered_to_emissions)
    then show "delivered_to l (trace (notify_all msqrt ns s)) =
                 delivered_to l (trace s) @ map (\<lambda>m. min (m * 20) 100) ms"
      by (simp only: ms(1) conc delivered_to_append)
  qed
  show "\<exists>ms. trace (notify_all msqrt ns s) = trace s @
               concat (map (\<lambda>m. map (\<lambda>l. Delivered l d (min (m * 20) 100)) ?ls) ms)
           \<and> distinct_adj (acceleration s # ms)
           \<and> distinct_adj (map (\<lambda>m. min (m * 20) 100) ms)
           \<and> (\<forall>l. count_list ?ls l = 1 \<longrightarrow>
                 delivered_to l (trace (notify_all msqrt ns s)) =
                   delivered_to l (trace s) @ map (\<lambda>m. min (m * 20) 100) ms)"
    using ms(1,2) pd del by blast
next
  assume a: "peripheral args = dev_id d
       \<and> (set_fffx (data_characteristic args) (data_value_0 args) (notificationData s)
             :: unit thrown + DeviceData) = Inr nd"
  then have tag: "data_characteristic args \<noteq> []" using set_fffx_Inr_tag by blast
  have "(didUpdateValueForCharacteristic msqrt args :: (unit thrown, 'l world, unit) task) s =
          onAxisNotification msqrt d args s"
    using assms a by (simp add: didUpdateValueForCharacteristic_def)
  then show "notify_all msqrt [args] s =
        s\<lparr>notificationData := nd,
          acceleration := calculateTotalAcceleration msqrt nd,
          trace := trace s @
            (if calculateTotalAcceleration msqrt nd \<noteq> acceleration s
             then map (\<lambda>l. Delivered l d (min (calculateTotalAcceleration msqrt nd * 20) 100))
                    (ee (sensor s) (getMessageFromDeviceId (dev_id d)))
             else [])\<rparr>"
    using onAxisNotification_step[OF tag, of s nd msqrt d, where ?'e = unit] a by simp
next
  show "emit bus None percent = []" by (simp add: emit_def)
qed

lemma sqrt9: "sqrt 9 = 3"
  using real_sqrt_abs[of 3] by simp

theorem sensor_events_deduplicated_witness:
  "table_get (callbacks (subscribed_world example_device () :: unit world))
       (dev_id example_device) =
     Entry \<lparr>callback = Some (OnAxisNotification example_device),
           service = KIIROO_CONTROL_SERVICE_UUID, characteristic = CHAR_Z_UUID\<rparr>
   \<and> peripheral \<lparr>peripheral = ''id'', data_characteristic = ''FFF1'', data_value_0 = 3\<rparr>
       = dev_id example_device
   \<and> peripheral \<lparr>peripheral = ''id'', data_characteristic = ''FFF2'', data_value_0 = 4\<rparr>
       = dev_id example_device
   \<and> (set_fffx ''FFF1'' 3 (notificationData (subscribed_world example_device () :: unit world))
        :: unit thrown + DeviceData) = Inr \<lparr>axisX = 3, axisY = 0, axisZ = 0\<rparr>
   \<and> (\<exists>ms. trace (notify_all sqrt
               [\<lparr>peripheral = ''id'', data_characteristic = ''FFF1'', data_value_0 = 3\<rparr>,
                \<lparr>peripheral = ''id'', data_characteristic = ''FFF2'', data_value_0 = 4\<rparr>]
               (subscribed_world example_device ())) =
             trace (subscribed_world example_device ()) @
               concat (map (\<lambda>m. map (\<lambda>l. Delivered l example_device (min (m * 20) 100)) [()]) ms)
           \<and> distinct_adj (0 # ms)
           \<and> distinct_adj (map (\<lambda>m. min (m * 20) 100) ms)
           \<and> delivered_to () (trace (notify_all sqrt
               [\<lparr>peripheral = ''id'', data_characteristic = ''FFF1'', data_value_0 = 3\<rparr>,
                \<lparr>peripheral = ''id'', data_characteristic = ''FFF2'', data_value_0 = 4\<rparr>]
               (subscribed_world example_device ()))) = map (\<lambda>m. min (m * 20) 100) ms)
   \<and> notify_all sqrt
        [\<lparr>peripheral = ''id'', data_characteristic = ''FFF1'', data_value_0 = 3\<rparr>]
        (subscribed_world example_device () :: unit world) =
      (subscribed_world example_device ())
        \<lparr>notificationData := \<lparr>axisX = 3, axisY = 0, axisZ = 0\<rparr>,
         acceleration := 3,
         trace := trace (subscribed_world example_device () :: unit world) @
                    [Delivered () example_device 60]\<rparr>
   \<and> emit (sensor (subscribed_world example_device () :: unit world)) None 60 = []"
proof -
  let ?sw = "subscribed_world example_device () :: unit world"
  let ?info = "\<lparr>callback = Some (OnAxisNotification example_device),
                service = KIIROO_CONTROL_SERVICE_UUID, characteristic = CHAR_Z_UUID\<rparr>"
  let ?x = "\<lparr>peripheral = ''id'', data_characteristic = ''FFF1'', data_value_0 = 3\<rparr>"
  let ?y = "\<lparr>peripheral = ''id'', data_characteristic = ''FFF2'', data_value_0 = 4\<rparr>"
  have h1: "table_get (callbacks ?sw) (dev_id example_device) = Entry ?info"
    by (simp add: subscribed_world_simps connected_world_def example_device_def
        table_get_def table_set_def)
  have h2: "callback ?info = Some (OnAxisNotification example_device)" by simp
  have px: "peripheral ?x = dev_id example_device" and py: "peripheral ?y = dev_id example_device"
    by (simp_all add: example_device_def)
  have sx: "(set_fffx ''FFF1'' 3 (notificationData ?sw) :: unit thrown + DeviceData)
              = Inr \<lparr>axisX = 3, axisY = 0, axisZ = 0\<rparr>"
    by (simp add: subscribed_world_simps set_fffx_def CHAR_X_UUID_def)
  have h3: "\<forall>args \<in> set [?x, ?y]. peripheral args = dev_id example_device"
    using px py by simp
  have m: "calculateTotalAcceleration sqrt \<lparr>axisX = 3, axisY = 0, axisZ = 0\<rparr> = 3"
    by (simp add: calculateTotalAcceleration_def Math_round_def sqrt9)
  note T = sensor_events_deduplicated[OF h1 h2, where ns = "[?x, ?y]" and msqrt = sqrt
      and args = ?x and nd = "\<lparr>axisX = 3, axisY = 0, axisZ = 0\<rparr>"
      and bus = "sensor ?sw" and percent = 60]
  from T h3 have "\<exists>ms. trace (notify_all sqrt [?x, ?y] ?sw) = trace ?sw @
               concat (map (\<lambda>m. map (\<lambda>l. Delivered l example_device (min (m * 20) 100))
                      (ee (sensor ?sw) (getMessageFromDeviceId (dev_id example_device)))) ms)
           \<and> distinct_adj (acceleration ?sw # ms)
           \<and> distinct_adj (map (\<lambda>m. min (m * 20) 100) ms)
           \<and> (\<forall>l. count_list (ee (sensor ?sw) (getMessageFromDeviceId (dev_id example_device))) l = 1 \<longrightarrow>
                 delivered_to l (trace (notify_all sqrt [?x, ?y] ?sw)) =
                   delivered_to l (trace ?sw) @ map (\<lambda>m. min (m * 20) 100) ms)"
    by blast
  then have ex: "\<exists>ms. trace (notify_all sqrt [?x, ?y] ?sw) = trace ?sw @
               concat (map (\<lambda>m. map (\<lambda>l. Delivered l example_device (min (m * 20) 100)) [()]) ms)
           \<and> distinct_adj (0 # ms)
           \<and> distinct_adj (map (\<lambda>m. min (m * 20) 100) ms)
           \<and> delivered_to () (trace (notify_all sqrt [?x, ?y] ?sw)) = map (\<lambda>m. min (m * 20) 100) ms"
    by (simp add: subscribed_world_simps connected_world_def)
  from T px sx have "notify_all sqrt [?x] ?sw =
        ?sw\<lparr>notificationData := \<lparr>axisX = 3, axisY = 0, axisZ = 0\<rparr>,
          acceleration := calculateTotalAcceleration sqrt \<lparr>axisX = 3, axisY = 0, axisZ = 0\<rparr>,
          trace := trace ?sw @
            (if calculateTotalAcceleration sqrt \<lparr>axisX = 3, axisY = 0, axisZ = 0\<rparr> \<noteq> acceleration ?sw
             then map (\<lambda>l. Delivered l example_device
                       (min (calculateTotalAcceleration sqrt \<lparr>axisX = 3, axisY = 0, axisZ = 0\<rparr> * 20) 100))
                    (ee (sensor ?sw) (getMessageFromDeviceId (dev_id example_device)))
             else [])\<rparr>"
    by simp
  then have one: "notify_all sqrt [?x] ?sw =
        ?sw\<lparr>notificationData := \<lparr>axisX = 3, axisY = 0, axisZ = 0\<rparr>, acceleration := 3,
          trace := trace ?sw @ [Delivered () example_device 60]\<rparr>"
    by (simp add: m subscribed_world_simps)
  from T have em: "emit (sensor ?sw) None 60 = []" by blast
  show ?thesis by (intro conjI h1 px py sx ex one em)
qed

end
